theory Spec2Isabelle
  imports Complex_Main "HOL-Library.Multiset" "HOL-Library.Char_ord" "HOL-Library.List_Lexorder"
begin

section \<open>Data model\<close>

text \<open>
  JavaScript numbers are modelled as exact rationals: rounding, \<open>NaN\<close> and the
  infinities of IEEE doubles are outside the model. A product is the record the catalog
  API delivers; a cart item is the object \<open>{ ...product, quantity, selectedSize,
  selectedColor, cartId }\<close> built in the product detail page, so it extends the product
  record.
\<close>

record product =
  prod_id :: int
  name :: string
  description :: string
  price :: rat
  category_id :: int
  rating :: rat
  stock :: rat

record cart_item = product +
  quantity :: rat
  selectedSize :: string
  selectedColor :: string
  cartId :: "string option"

text \<open>
  The argument \<open>productId\<close> of \<open>updateQuantity\<close> and \<open>removeFromCart\<close> is whatever the
  caller passes: the cart page passes \<open>item.cartId || item.id\<close>, a string or a number.
  \<open>===\<close> between a number and a string is false.
\<close>

datatype js_key = Num_key int | Str_key string

definition strict_eq_id :: "'a cart_item_scheme \<Rightarrow> js_key \<Rightarrow> bool" where
  "strict_eq_id item k = (Num_key (prod_id item) = k)"

record cart_state =
  items :: "cart_item list"
  loading :: bool
  error :: "string option"

datatype cart_action =
    SET_CART "cart_item list"
  | ADD_ITEM cart_item
  | UPDATE_ITEM js_key rat
  | REMOVE_ITEM js_key
  | CLEAR_CART
  | SET_LOADING bool
  | SET_ERROR string

section \<open>The cart reducer (CartContext.js)\<close>

fun cartReducer :: "cart_state \<Rightarrow> cart_action \<Rightarrow> cart_state" where
  "cartReducer state (SET_CART payload) = state\<lparr>items := payload, loading := False\<rparr>"
| "cartReducer state (ADD_ITEM payload) =
     (case find (\<lambda>item. prod_id item = prod_id payload) (items state) of
        Some existingItem \<Rightarrow>
          state\<lparr>items := map (\<lambda>item. if prod_id item = prod_id payload
                                         then item\<lparr>quantity := quantity item + quantity payload\<rparr>
                                         else item) (items state)\<rparr>
      | None \<Rightarrow> state\<lparr>items := items state @ [payload]\<rparr>)"
| "cartReducer state (UPDATE_ITEM k q) =
     state\<lparr>items := map (\<lambda>item. if strict_eq_id item k then item\<lparr>quantity := q\<rparr> else item)
                          (items state)\<rparr>"
| "cartReducer state (REMOVE_ITEM k) =
     state\<lparr>items := filter (\<lambda>item. \<not> strict_eq_id item k) (items state)\<rparr>"
| "cartReducer state CLEAR_CART = state\<lparr>items := []\<rparr>"
| "cartReducer state (SET_LOADING b) = state\<lparr>loading := b\<rparr>"
| "cartReducer state (SET_ERROR msg) = state\<lparr>error := Some msg, loading := False\<rparr>"

definition initialState :: cart_state where
  "initialState = \<lparr>items = [], loading = False, error = None\<rparr>"

section \<open>The cart operations (CartContext.js, CartProvider)\<close>

text \<open>
  Each operation is an \<open>async\<close> function that dispatches actions inside \<open>try\<close> and
  resolves to \<open>undefined\<close>. The only error channel towards the caller is the \<open>error\<close>
  field of the state, written by \<open>SET_ERROR\<close> in the \<open>catch\<close> block. A dispatch runs the
  reducer, which has no throwing branch on a typed state, so the \<open>catch\<close> blocks are never
  entered; an operation is therefore the composition of its dispatches. The parameter
  \<open>quantity = 1\<close> of \<open>addToCart\<close> is an optional argument.
\<close>

definition default_quantity :: "rat option \<Rightarrow> rat" where
  "default_quantity quantity_arg = (case quantity_arg of None \<Rightarrow> 1 | Some q \<Rightarrow> q)"

definition addToCart :: "cart_item \<Rightarrow> rat option \<Rightarrow> cart_state \<Rightarrow> cart_state" where
  "addToCart product quantity_arg state =
     (let quantity' = default_quantity quantity_arg;
          state1 = cartReducer state (SET_LOADING True);
          cartItem = product\<lparr>quantity := quantity'\<rparr>
      in cartReducer state1 (ADD_ITEM cartItem))"

definition removeFromCart :: "js_key \<Rightarrow> cart_state \<Rightarrow> cart_state" where
  "removeFromCart productId state = cartReducer state (REMOVE_ITEM productId)"

definition updateQuantity :: "js_key \<Rightarrow> rat \<Rightarrow> cart_state \<Rightarrow> cart_state" where
  "updateQuantity productId quantity' state =
     (if quantity' \<le> 0 then removeFromCart productId state
      else cartReducer state (UPDATE_ITEM productId quantity'))"

definition clearCart :: "cart_state \<Rightarrow> cart_state" where
  "clearCart state = cartReducer state CLEAR_CART"

definition getCartTotal :: "cart_state \<Rightarrow> rat" where
  "getCartTotal state = foldl (\<lambda>total item. total + price item * quantity item) 0 (items state)"

definition getCartItemCount :: "cart_state \<Rightarrow> rat" where
  "getCartItemCount state = foldl (\<lambda>count item. count + quantity item) 0 (items state)"

text \<open>A sequence of cart mutations, applied in the order it is invoked.\<close>

datatype cart_mutation =
    AddToCart cart_item "rat option"
  | UpdateQuantity js_key rat
  | RemoveFromCart js_key
  | ClearCart

fun apply_mutation :: "cart_state \<Rightarrow> cart_mutation \<Rightarrow> cart_state" where
  "apply_mutation state (AddToCart product q) = addToCart product q state"
| "apply_mutation state (UpdateQuantity k q) = updateQuantity k q state"
| "apply_mutation state (RemoveFromCart k) = removeFromCart k state"
| "apply_mutation state ClearCart = clearCart state"

definition run_mutations :: "cart_mutation list \<Rightarrow> cart_state" where
  "run_mutations ms = foldl apply_mutation initialState ms"

section \<open>Adding from the product detail page (ProductDetail, handleAddToCart)\<close>

text \<open>
  The template literal \<open>`${product.id}-${selectedSize}-${selectedColor}`\<close> prints the
  numeric id in decimal.
\<close>

definition digit_char :: "nat \<Rightarrow> char" where
  "digit_char d = char_of (of_char CHR ''0'' + d)"

function string_of_nat :: "nat \<Rightarrow> string" where
  "string_of_nat n =
     (if n < 10 then [digit_char n] else string_of_nat (n div 10) @ [digit_char (n mod 10)])"
  by pat_completeness auto
termination
  by (relation "measure (\<lambda>n. n)") auto

declare string_of_nat.simps [simp del]

definition string_of_int :: "int \<Rightarrow> string" where
  "string_of_int i = (if i < 0 then CHR ''-'' # string_of_nat (nat (- i)) else string_of_nat (nat i))"

definition make_cartId :: "int \<Rightarrow> string \<Rightarrow> string \<Rightarrow> string" where
  "make_cartId pid selSize selColor = string_of_int pid @ ''-'' @ selSize @ ''-'' @ selColor"

text \<open>
  \<open>handleAddToCart\<close> reads the component state (the product, if loaded, the chosen
  quantity, size and colour) and calls \<open>addToCart(cartItem)\<close> with one argument.
\<close>

definition handleAddToCart ::
  "product option \<Rightarrow> rat \<Rightarrow> string \<Rightarrow> string \<Rightarrow> cart_state \<Rightarrow> cart_state" where
  "handleAddToCart product_opt quantity' selSize selColor state =
     (case product_opt of
        None \<Rightarrow> state
      | Some product \<Rightarrow>
          addToCart
            (product.extend product
               (cart_item.fields quantity' selSize selColor
                  (Some (make_cartId (prod_id product) selSize selColor))))
            None state)"

section \<open>Persistence of the cart (utils/storage.js)\<close>

text \<open>
  \<open>localStorage\<close>, \<open>JSON.stringify\<close> and \<open>JSON.parse\<close> belong to the browser, not to the
  repository. The store is modelled as a key/value map whose reads fail with a
  \<open>SecurityError\<close> when access is denied and whose writes fail with a
  \<open>QuotaExceededError\<close> when the value is longer than the free space. The two JSON functions
  are parameters of \<open>getCart\<close> and \<open>saveCart\<close>; either may throw. Their model after the
  language standard follows further down.
\<close>

datatype js_exn = SecurityError | QuotaExceededError | SyntaxError | TypeError

text \<open>
  The values \<open>saveCart\<close> may be handed and \<open>getCart\<close> may return: the JSON values, and with
  them \<open>undefined\<close>, the numbers \<open>NaN\<close> and \<open>\<plusminus>Infinity\<close> and BigInts, which a cart item
  can hold but JSON cannot write. A finite number is its decimal numeral: the sign, the
  whole part and the decimal places (\<open>Finite False 99 [9, 9]\<close> is 99.99, \<open>Finite True 0 []\<close>
  is \<open>-0\<close>). An object is the list of its properties in enumeration order.
\<close>

datatype js_number = NaN | PosInfinity | NegInfinity | Finite bool nat "nat list"

datatype json =
    JUndefined
  | JNull
  | JBool bool
  | JNum js_number
  | JBigInt int
  | JStr string
  | JArr "json list"
  | JObj "(string \<times> json) list"

record local_storage =
  entries :: "string \<Rightarrow> string option"
  accessible :: bool
  free_space :: nat

definition getItem_ls :: "local_storage \<Rightarrow> string \<Rightarrow> js_exn + string option" where
  "getItem_ls ls key = (if accessible ls then Inr (entries ls key) else Inl SecurityError)"

definition setItem_ls :: "local_storage \<Rightarrow> string \<Rightarrow> string \<Rightarrow> js_exn + local_storage" where
  "setItem_ls ls key val =
     (if \<not> accessible ls then Inl SecurityError
      else if free_space ls < length val then Inl QuotaExceededError
      else Inr (ls\<lparr>entries := (entries ls)(key \<mapsto> val)\<rparr>))"

text \<open>\<open>try { body } catch (error) { handler }\<close>: the handler sees every exception of the body.\<close>

definition try_catch :: "js_exn + 'a \<Rightarrow> (js_exn \<Rightarrow> js_exn + 'a) \<Rightarrow> js_exn + 'a" where
  "try_catch body handler = (case body of Inl e \<Rightarrow> handler e | Inr v \<Rightarrow> Inr v)"

text \<open>
  \<open>cart ? JSON.parse(cart) : []\<close>: \<open>null\<close> and the empty string are falsy. The handler logs
  and returns \<open>[]\<close>.
\<close>

definition getCart :: "(string \<Rightarrow> js_exn + json) \<Rightarrow> local_storage \<Rightarrow> js_exn + json" where
  "getCart JSON_parse ls =
     try_catch
       (case getItem_ls ls ''cart'' of
          Inl e \<Rightarrow> Inl e
        | Inr cart \<Rightarrow>
            (case cart of
               None \<Rightarrow> Inr (JArr [])
             | Some text \<Rightarrow> if text = [] then Inr (JArr []) else JSON_parse text))
       (\<lambda>error. Inr (JArr []))"

text \<open>
  \<open>saveCart\<close> answers \<open>true\<close> after a successful write and \<open>false\<close> from the handler; the
  store is returned with it. \<open>JSON.stringify\<close> gives a text or \<open>undefined\<close>, and \<open>setItem\<close>
  stores the string of what it is given.
\<close>

definition saveCart ::
  "(json \<Rightarrow> js_exn + string option) \<Rightarrow> json \<Rightarrow> local_storage
     \<Rightarrow> js_exn + bool \<times> local_storage" where
  "saveCart JSON_stringify cartItems ls =
     try_catch
       (case JSON_stringify cartItems of
          Inl e \<Rightarrow> Inl e
        | Inr text \<Rightarrow>
            (case setItem_ls ls ''cart''
                    (case text of None \<Rightarrow> ''undefined'' | Some t \<Rightarrow> t) of
               Inl e \<Rightarrow> Inl e
             | Inr ls' \<Rightarrow> Inr (True, ls')))
       (\<lambda>error. Inr (False, ls))"

section \<open>The catalog view (ProductContext.js, getFilteredProducts)\<close>

record product_filters =
  category :: string
  minPrice :: string
  maxPrice :: string
  sortBy :: string
  sortOrder :: string

record product_state =
  products :: "product list"
  searchQuery :: string
  filters :: product_filters

text \<open>Strings are byte lists; \<open>toLowerCase\<close> is modelled on the ASCII letters.\<close>

definition lower_char :: "char \<Rightarrow> char" where
  "lower_char c =
     (if CHR ''A'' \<le> c \<and> c \<le> CHR ''Z'' then char_of (of_char c + (32::nat)) else c)"

definition toLowerCase :: "string \<Rightarrow> string" where
  "toLowerCase s = map lower_char s"

fun starts_with :: "string \<Rightarrow> string \<Rightarrow> bool" where
  "starts_with s [] = True"
| "starts_with [] (q # qs) = False"
| "starts_with (c # cs) (q # qs) = (c = q \<and> starts_with cs qs)"

fun includes_str :: "string \<Rightarrow> string \<Rightarrow> bool" where
  "includes_str [] q = (q = [])"
| "includes_str (c # cs) q = (starts_with (c # cs) q \<or> includes_str cs q)"

text \<open>
  \<open>a[sortBy]\<close> reads the property named by the filter; a name that is no property of the
  record gives \<open>undefined\<close>.
\<close>

datatype js_val = Undefined | Num rat | Str string

definition get_prop :: "product \<Rightarrow> string \<Rightarrow> js_val" where
  "get_prop p k =
     (if k = ''id'' then Num (of_int (prod_id p))
      else if k = ''name'' then Str (name p)
      else if k = ''description'' then Str (description p)
      else if k = ''price'' then Num (price p)
      else if k = ''category_id'' then Num (of_int (category_id p))
      else if k = ''rating'' then Num (rating p)
      else if k = ''stock'' then Num (stock p)
      else Undefined)"

text \<open>
  \<open>>\<close> and \<open><\<close> between two numbers or between two strings (by code unit). Both operands
  of the comparator come from the same property, so they are of one kind; a comparison
  with \<open>undefined\<close> is false.
\<close>

fun js_gt :: "js_val \<Rightarrow> js_val \<Rightarrow> bool" where
  "js_gt (Num a) (Num b) = (a > b)"
| "js_gt (Str a) (Str b) = (a > b)"
| "js_gt _ _ = False"

fun js_lt :: "js_val \<Rightarrow> js_val \<Rightarrow> bool" where
  "js_lt (Num a) (Num b) = (a < b)"
| "js_lt (Str a) (Str b) = (a < b)"
| "js_lt _ _ = False"

text \<open>
  The comparator of \<open>filtered.sort\<close>. When \<open>aValue\<close> is a string both values are put in
  lower case; \<open>bValue\<close> comes from the same property and is then a string too.
\<close>

definition is_string :: "js_val \<Rightarrow> bool" where
  "is_string v = (case v of Str s \<Rightarrow> True | _ \<Rightarrow> False)"

fun lower_val :: "js_val \<Rightarrow> js_val" where
  "lower_val (Str s) = Str (toLowerCase s)"
| "lower_val v = v"

definition comparefn :: "string \<Rightarrow> string \<Rightarrow> product \<Rightarrow> product \<Rightarrow> int" where
  "comparefn sortBy' sortOrder' a b =
     (let aValue0 = get_prop a sortBy';
          bValue0 = get_prop b sortBy';
          aValue = (if is_string aValue0 then lower_val aValue0 else aValue0);
          bValue = (if is_string aValue0 then lower_val bValue0 else bValue0)
      in if sortOrder' = ''asc''
         then (if js_gt aValue bValue then 1 else - 1)
         else (if js_lt aValue bValue then 1 else - 1))"

text \<open>The value the comparator compares: the property, in lower case if it is a string.\<close>

definition sort_value :: "string \<Rightarrow> product \<Rightarrow> js_val" where
  "sort_value sortBy' p = lower_val (get_prop p sortBy')"

text \<open>
  \<open>Array.prototype.sort\<close> is the engine's. The model is the binary insertion sort V8 runs
  on an array shorter than its minimum run length: each element in turn is placed in front
  of the first element of the sorted prefix that the comparator puts it below.
\<close>

fun insert_by :: "('a \<Rightarrow> 'a \<Rightarrow> int) \<Rightarrow> 'a \<Rightarrow> 'a list \<Rightarrow> 'a list" where
  "insert_by cmp pivot [] = [pivot]"
| "insert_by cmp pivot (x # xs) =
     (if cmp pivot x < 0 then pivot # x # xs else x # insert_by cmp pivot xs)"

definition array_sort :: "('a \<Rightarrow> 'a \<Rightarrow> int) \<Rightarrow> 'a list \<Rightarrow> 'a list" where
  "array_sort cmp xs = foldl (\<lambda>sorted pivot. insert_by cmp pivot sorted) [] xs"

text \<open>
  The filters of \<open>getFilteredProducts\<close>, each applied when its setting is a non-empty
  string. \<open>parseInt\<close> and \<open>parseFloat\<close> are the engine's and are parameters; \<open>None\<close> is
  \<open>NaN\<close>, which equals nothing and bounds nothing.
\<close>

definition apply_filters ::
  "(string \<Rightarrow> int option) \<Rightarrow> (string \<Rightarrow> rat option) \<Rightarrow> product_state \<Rightarrow> product list" where
  "apply_filters parseInt parseFloat state =
     (let filtered0 = products state;
          filtered1 =
            (if searchQuery state \<noteq> []
             then (let query = toLowerCase (searchQuery state)
                   in filter (\<lambda>product. includes_str (toLowerCase (name product)) query
                                       \<or> includes_str (toLowerCase (description product)) query)
                        filtered0)
             else filtered0);
          filtered2 =
            (if category (filters state) \<noteq> []
             then filter (\<lambda>product. Some (category_id product) = parseInt (category (filters state)))
                    filtered1
             else filtered1);
          filtered3 =
            (if minPrice (filters state) \<noteq> []
             then filter (\<lambda>product. case parseFloat (minPrice (filters state)) of
                                       None \<Rightarrow> False | Some m \<Rightarrow> price product \<ge> m)
                    filtered2
             else filtered2);
          filtered4 =
            (if maxPrice (filters state) \<noteq> []
             then filter (\<lambda>product. case parseFloat (maxPrice (filters state)) of
                                       None \<Rightarrow> False | Some m \<Rightarrow> price product \<le> m)
                    filtered3
             else filtered3)
      in filtered4)"

definition getFilteredProducts ::
  "(string \<Rightarrow> int option) \<Rightarrow> (string \<Rightarrow> rat option) \<Rightarrow> product_state \<Rightarrow> product list" where
  "getFilteredProducts parseInt parseFloat state =
     array_sort (comparefn (sortBy (filters state)) (sortOrder (filters state)))
       (apply_filters parseInt parseFloat state)"

section \<open>The browser's JSON functions (ECMA-262, JSON.stringify and JSON.parse)\<close>

text \<open>
  The code calls both functions with one argument, so replacer, indentation and reviver
  play no part. The model follows the standard with these limits: a string is a list of
  code units below 256; numbers are exact decimals, without the range and rounding of
  doubles; a finite number is always written in positional notation, where the engine
  turns to exponent notation from \<open>1e21\<close> on and below \<open>1e-6\<close>, which \<open>JSON.parse\<close> reads
  as the same number.
\<close>

subsection \<open>JSON.stringify\<close>

text \<open>
  A number that is not finite is written \<open>null\<close>; a finite one as its numeral, and \<open>-0\<close>
  as \<open>0\<close>.
\<close>

definition number_text :: "js_number \<Rightarrow> string" where
  "number_text x =
     (case x of
        Finite negative whole places \<Rightarrow>
          (if negative \<and> \<not> (whole = 0 \<and> places = []) then ''-'' else [])
          @ string_of_nat whole
          @ (if places = [] then [] else CHR ''.'' # map digit_char places)
      | _ \<Rightarrow> ''null'')"

text \<open>
  A string is written between double quotes. The double quote, the backslash and the
  code units below 32 are escaped: five of them by a letter, the others as \<open>\u00\<close> and two
  hexadecimal digits in lower case.
\<close>

definition hex_char :: "nat \<Rightarrow> char" where
  "hex_char d = (if d < 10 then digit_char d else char_of (of_char CHR ''a'' + (d - 10)))"

definition escape_char :: "char \<Rightarrow> string" where
  "escape_char c =
     (if c = CHR 0x22 then [CHR 0x5C, CHR 0x22]
      else if c = CHR 0x5C then [CHR 0x5C, CHR 0x5C]
      else if c = CHR 0x08 then [CHR 0x5C, CHR ''b'']
      else if c = CHR 0x09 then [CHR 0x5C, CHR ''t'']
      else if c = CHR 0x0A then [CHR 0x5C, CHR ''n'']
      else if c = CHR 0x0C then [CHR 0x5C, CHR ''f'']
      else if c = CHR 0x0D then [CHR 0x5C, CHR ''r'']
      else if (of_char c :: nat) < 32
        then [CHR 0x5C, CHR ''u'', CHR ''0'', CHR ''0'',
              hex_char (of_char c div 16), hex_char (of_char c mod 16)]
      else [c])"

definition quote_string :: "string \<Rightarrow> string" where
  "quote_string s = CHR 0x22 # concat (map escape_char s) @ [CHR 0x22]"

text \<open>
  \<open>serialize\<close> gives \<open>None\<close> where the standard gives \<open>undefined\<close>. Inside an array
  \<open>undefined\<close> is written \<open>null\<close>; a property whose value is \<open>undefined\<close> is left out. A
  BigInt anywhere in the value makes \<open>JSON.stringify\<close> throw a \<open>TypeError\<close>, which
  \<open>ecma_JSON_stringify\<close> decides with \<open>has_bigint\<close> before it serialises.
\<close>

fun join_comma :: "string list \<Rightarrow> string" where
  "join_comma [] = []"
| "join_comma [t] = t"
| "join_comma (t # u # ts) = t @ CHR '','' # join_comma (u # ts)"

fun serialize :: "json \<Rightarrow> string option"
  and serialize_elements :: "json list \<Rightarrow> string list"
  and serialize_members :: "(string \<times> json) list \<Rightarrow> string list" where
  "serialize JUndefined = None"
| "serialize JNull = Some ''null''"
| "serialize (JBool b) = Some (if b then ''true'' else ''false'')"
| "serialize (JNum x) = Some (number_text x)"
| "serialize (JBigInt i) = None"
| "serialize (JStr s) = Some (quote_string s)"
| "serialize (JArr vs) = Some (CHR ''['' # join_comma (serialize_elements vs) @ '']'')"
| "serialize (JObj ps) = Some (CHR ''{'' # join_comma (serialize_members ps) @ ''}'')"
| "serialize_elements [] = []"
| "serialize_elements (v # vs) =
     (case serialize v of None \<Rightarrow> ''null'' | Some t \<Rightarrow> t) # serialize_elements vs"
| "serialize_members [] = []"
| "serialize_members ((k, v) # ps) =
     (case serialize v of
        None \<Rightarrow> serialize_members ps
      | Some t \<Rightarrow> (quote_string k @ CHR '':'' # t) # serialize_members ps)"

fun has_bigint :: "json \<Rightarrow> bool"
  and has_bigint_list :: "json list \<Rightarrow> bool"
  and has_bigint_members :: "(string \<times> json) list \<Rightarrow> bool" where
  "has_bigint (JBigInt i) = True"
| "has_bigint (JArr vs) = has_bigint_list vs"
| "has_bigint (JObj ps) = has_bigint_members ps"
| "has_bigint JUndefined = False"
| "has_bigint JNull = False"
| "has_bigint (JBool b) = False"
| "has_bigint (JNum x) = False"
| "has_bigint (JStr s) = False"
| "has_bigint_list [] = False"
| "has_bigint_list (v # vs) = (has_bigint v \<or> has_bigint_list vs)"
| "has_bigint_members [] = False"
| "has_bigint_members ((k, v) # ps) = (has_bigint v \<or> has_bigint_members ps)"

definition ecma_JSON_stringify :: "json \<Rightarrow> js_exn + string option" where
  "ecma_JSON_stringify v = (if has_bigint v then Inl TypeError else Inr (serialize v))"

subsection \<open>JSON.parse\<close>

text \<open>White space between the tokens is a space, a tab, a line feed or a carriage return.\<close>

definition is_ws :: "char \<Rightarrow> bool" where
  "is_ws c = (c = CHR '' '' \<or> c = CHR 0x09 \<or> c = CHR 0x0A \<or> c = CHR 0x0D)"

definition skip_ws :: "string \<Rightarrow> string" where
  "skip_ws text = dropWhile is_ws text"

definition is_digit :: "char \<Rightarrow> bool" where
  "is_digit c = (CHR ''0'' \<le> c \<and> c \<le> CHR ''9'')"

definition digit_val :: "char \<Rightarrow> nat" where
  "digit_val c = of_char c - of_char CHR ''0''"

text \<open>
  In a string a code unit below 32 is an error, and a backslash starts one of the escapes
  of the grammar. An escape \<open>\uXXXX\<close> above \<open>00FF\<close> names a code unit outside the model and
  is refused.
\<close>

definition hex_val :: "char \<Rightarrow> nat option" where
  "hex_val c =
     (if is_digit c then Some (digit_val c)
      else if CHR ''a'' \<le> c \<and> c \<le> CHR ''f'' then Some (of_char c - of_char CHR ''a'' + 10)
      else if CHR ''A'' \<le> c \<and> c \<le> CHR ''F'' then Some (of_char c - of_char CHR ''A'' + 10)
      else None)"

definition unicode_escape :: "char \<Rightarrow> char \<Rightarrow> char \<Rightarrow> char \<Rightarrow> char option" where
  "unicode_escape h1 h2 h3 h4 =
     (case (hex_val h1, hex_val h2, hex_val h3, hex_val h4) of
        (Some a, Some b, Some c, Some d) \<Rightarrow>
          (if a = 0 \<and> b = 0 then Some (char_of (16 * c + d)) else None)
      | _ \<Rightarrow> None)"

definition unescape :: "char \<Rightarrow> char option" where
  "unescape e =
     (if e = CHR 0x22 then Some (CHR 0x22)
      else if e = CHR 0x5C then Some (CHR 0x5C)
      else if e = CHR ''/'' then Some (CHR ''/'')
      else if e = CHR ''b'' then Some (CHR 0x08)
      else if e = CHR ''f'' then Some (CHR 0x0C)
      else if e = CHR ''n'' then Some (CHR 0x0A)
      else if e = CHR ''r'' then Some (CHR 0x0D)
      else if e = CHR ''t'' then Some (CHR 0x09)
      else None)"

definition cons_char :: "char \<Rightarrow> (string \<times> string) option \<Rightarrow> (string \<times> string) option" where
  "cons_char c r = (case r of None \<Rightarrow> None | Some (s, rest) \<Rightarrow> Some (c # s, rest))"

fun parse_string_body :: "string \<Rightarrow> (string \<times> string) option" where
  "parse_string_body [] = None"
| "parse_string_body (c # cs) =
     (if c = CHR 0x22 then Some ([], cs)
      else if c = CHR 0x5C then
        (case cs of
           [] \<Rightarrow> None
         | e # cs1 \<Rightarrow>
             if e = CHR ''u'' then
               (case cs1 of
                  h1 # h2 # h3 # h4 # cs2 \<Rightarrow>
                    (case unicode_escape h1 h2 h3 h4 of
                       None \<Rightarrow> None
                     | Some u \<Rightarrow> cons_char u (parse_string_body cs2))
                | _ \<Rightarrow> None)
             else
               (case unescape e of
                  None \<Rightarrow> None
                | Some u \<Rightarrow> cons_char u (parse_string_body cs1)))
      else if (of_char c :: nat) < 32 then None
      else cons_char c (parse_string_body cs))"

text \<open>
  A number is an optional minus sign, a whole part without a leading zero, an optional
  fraction and an optional exponent. The exponent moves the decimal point; zeros at the end
  of the decimal places are dropped.
\<close>

definition nat_of_digits :: "nat list \<Rightarrow> nat" where
  "nat_of_digits ds = foldl (\<lambda>a d. 10 * a + d) 0 ds"

definition strip_zeros :: "nat list \<Rightarrow> nat list" where
  "strip_zeros ps = rev (dropWhile (\<lambda>d. d = 0) (rev ps))"

definition shift_point :: "int \<Rightarrow> nat list \<Rightarrow> nat list \<Rightarrow> nat list \<times> nat list" where
  "shift_point x ds fs =
     (if 0 \<le> x
      then (let k = nat x; fs' = fs @ replicate (k - length fs) 0
            in (ds @ take k fs', drop k fs'))
      else (let k = nat (- x); ds' = replicate (k - length ds) 0 @ ds
            in (take (length ds' - k) ds', drop (length ds' - k) ds' @ fs)))"

definition make_number :: "bool \<Rightarrow> nat list \<Rightarrow> nat list \<Rightarrow> int option \<Rightarrow> js_number" where
  "make_number negative ds fs e =
     (case (case e of None \<Rightarrow> (ds, fs) | Some x \<Rightarrow> shift_point x ds fs) of
        (ws, ps) \<Rightarrow> Finite negative (nat_of_digits ws) (strip_zeros ps))"

definition parse_fraction :: "string \<Rightarrow> (string \<times> string) option" where
  "parse_fraction text =
     (case text of
        [] \<Rightarrow> Some ([], [])
      | c # cs \<Rightarrow>
          if c = CHR ''.''
          then (if takeWhile is_digit cs = [] then None
                else Some (takeWhile is_digit cs, dropWhile is_digit cs))
          else Some ([], text))"

definition parse_exponent :: "string \<Rightarrow> (int option \<times> string) option" where
  "parse_exponent text =
     (case text of
        [] \<Rightarrow> Some (None, [])
      | c # cs \<Rightarrow>
          if c = CHR ''e'' \<or> c = CHR ''E''
          then (case (case cs of
                        [] \<Rightarrow> (1, [])
                      | s # r \<Rightarrow> if s = CHR ''+'' then (1, r)
                                 else if s = CHR ''-'' then (- 1, r) else (1, cs)) of
                  (sg, cs1) \<Rightarrow>
                    if takeWhile is_digit cs1 = [] then None
                    else Some (Some (sg * int (nat_of_digits (map digit_val (takeWhile is_digit cs1)))),
                               dropWhile is_digit cs1))
          else Some (None, text))"

definition parse_number :: "string \<Rightarrow> (js_number \<times> string) option" where
  "parse_number text =
     (case (case text of
              [] \<Rightarrow> (False, [])
            | c # cs \<Rightarrow> if c = CHR ''-'' then (True, cs) else (False, text)) of
        (negative, t1) \<Rightarrow>
          (let ds = takeWhile is_digit t1
           in if ds = [] \<or> (1 < length ds \<and> hd ds = CHR ''0'') then None
              else (case parse_fraction (dropWhile is_digit t1) of
                      None \<Rightarrow> None
                    | Some (fs, t3) \<Rightarrow>
                        (case parse_exponent t3 of
                           None \<Rightarrow> None
                         | Some (e, t4) \<Rightarrow>
                             Some (make_number negative (map digit_val ds) (map digit_val fs) e, t4)))))"

text \<open>
  A key that comes again in an object keeps its first place and takes the later value.
\<close>

fun obj_put :: "(string \<times> json) list \<Rightarrow> string \<Rightarrow> json \<Rightarrow> (string \<times> json) list" where
  "obj_put [] k v = [(k, v)]"
| "obj_put ((k', v') # ps) k v = (if k' = k then (k, v) # ps else (k', v') # obj_put ps k v)"

text \<open>
  The parser descends into arrays and objects on fuel; \<open>ecma_JSON_parse\<close> gives it one
  more than the length of the text. After the value only white space may follow.
\<close>

fun parse_value :: "nat \<Rightarrow> string \<Rightarrow> (json \<times> string) option"
  and parse_elements :: "nat \<Rightarrow> string \<Rightarrow> json list \<Rightarrow> (json \<times> string) option"
  and parse_members :: "nat \<Rightarrow> string \<Rightarrow> (string \<times> json) list \<Rightarrow> (json \<times> string) option" where
  "parse_value 0 text = None"
| "parse_value (Suc n) text =
     (case skip_ws text of
        [] \<Rightarrow> None
      | c # cs \<Rightarrow>
          if c = CHR ''['' then
            (case skip_ws cs of
               [] \<Rightarrow> None
             | d # rest \<Rightarrow> if d = CHR '']'' then Some (JArr [], rest) else parse_elements n cs [])
          else if c = CHR ''{'' then
            (case skip_ws cs of
               [] \<Rightarrow> None
             | d # rest \<Rightarrow> if d = CHR ''}'' then Some (JObj [], rest) else parse_members n cs [])
          else if c = CHR 0x22 then
            (case parse_string_body cs of
               None \<Rightarrow> None
             | Some (s, rest) \<Rightarrow> Some (JStr s, rest))
          else if starts_with (c # cs) ''null'' then Some (JNull, drop 4 (c # cs))
          else if starts_with (c # cs) ''true'' then Some (JBool True, drop 4 (c # cs))
          else if starts_with (c # cs) ''false'' then Some (JBool False, drop 5 (c # cs))
          else
            (case parse_number (c # cs) of
               None \<Rightarrow> None
             | Some (x, rest) \<Rightarrow> Some (JNum x, rest)))"
| "parse_elements 0 text acc = None"
| "parse_elements (Suc n) text acc =
     (case parse_value n text of
        None \<Rightarrow> None
      | Some (v, rest) \<Rightarrow>
          (case skip_ws rest of
             [] \<Rightarrow> None
           | c # rest1 \<Rightarrow>
               if c = CHR '','' then parse_elements n rest1 (acc @ [v])
               else if c = CHR '']'' then Some (JArr (acc @ [v]), rest1)
               else None))"
| "parse_members 0 text acc = None"
| "parse_members (Suc n) text acc =
     (case skip_ws text of
        [] \<Rightarrow> None
      | q # cs \<Rightarrow>
          if q = CHR 0x22 then
            (case parse_string_body cs of
               None \<Rightarrow> None
             | Some (k, rest) \<Rightarrow>
                 (case skip_ws rest of
                    [] \<Rightarrow> None
                  | c # rest1 \<Rightarrow>
                      if c = CHR '':'' then
                        (case parse_value n rest1 of
                           None \<Rightarrow> None
                         | Some (v, rest2) \<Rightarrow>
                             (case skip_ws rest2 of
                                [] \<Rightarrow> None
                              | d # rest3 \<Rightarrow>
                                  if d = CHR '','' then parse_members n rest3 (obj_put acc k v)
                                  else if d = CHR ''}'' then Some (JObj (obj_put acc k v), rest3)
                                  else None))
                      else None))
          else None)"

definition ecma_JSON_parse :: "string \<Rightarrow> js_exn + json" where
  "ecma_JSON_parse text =
     (case parse_value (Suc (length text)) text of
        None \<Rightarrow> Inl SyntaxError
      | Some (v, rest) \<Rightarrow> if skip_ws rest = [] then Inr v else Inl SyntaxError)"

text \<open>What may follow a value inside a JSON text: nothing, a comma or a closing bracket.\<close>

definition ends_value :: "string \<Rightarrow> bool" where
  "ends_value rest =
     (case rest of [] \<Rightarrow> True | c # cs \<Rightarrow> c = CHR '','' \<or> c = CHR '']'' \<or> c = CHR ''}'')"

subsection \<open>Values that JSON represents\<close>

text \<open>
  The values that a JSON text can hold as they are: \<open>null\<close>, the booleans, the strings,
  the finite numbers in normal form (digits below ten, no zero at the end of the decimal
  places) except \<open>-0\<close>, and the arrays and objects of such values, an object with each key
  once.
\<close>

definition number_representable :: "js_number \<Rightarrow> bool" where
  "number_representable x =
     (case x of
        Finite negative whole places \<Rightarrow>
          list_all (\<lambda>d. d < 10) places \<and> (places = [] \<or> last places \<noteq> 0)
          \<and> \<not> (negative \<and> whole = 0 \<and> places = [])
      | _ \<Rightarrow> False)"

fun json_representable :: "json \<Rightarrow> bool"
  and json_representable_list :: "json list \<Rightarrow> bool"
  and json_representable_members :: "(string \<times> json) list \<Rightarrow> bool" where
  "json_representable JUndefined = False"
| "json_representable JNull = True"
| "json_representable (JBool b) = True"
| "json_representable (JNum x) = number_representable x"
| "json_representable (JBigInt i) = False"
| "json_representable (JStr s) = True"
| "json_representable (JArr vs) = json_representable_list vs"
| "json_representable (JObj ps) = (distinct (map fst ps) \<and> json_representable_members ps)"
| "json_representable_list [] = True"
| "json_representable_list (v # vs) = (json_representable v \<and> json_representable_list vs)"
| "json_representable_members [] = True"
| "json_representable_members ((k, v) # ps) =
     (json_representable v \<and> json_representable_members ps)"

section \<open>Example data\<close>

definition example_product :: product where
  "example_product = \<lparr>prod_id = 7, name = ''Shirt'', description = ''Cotton shirt'', price = 10,
     category_id = 1, rating = 4, stock = 5\<rparr>"

definition example_item :: cart_item where
  "example_item = product.extend example_product (cart_item.fields 1 [] [] None)"

definition mug :: "int \<Rightarrow> product" where
  "mug i = \<lparr>prod_id = i, name = ''Mug'', description = ''Stoneware mug'', price = 8,
     category_id = 2, rating = 4, stock = 20\<rparr>"

definition example_catalog :: "product list \<Rightarrow> product_state" where
  "example_catalog ps = \<lparr>products = ps, searchQuery = [],
     filters = \<lparr>category = [], minPrice = [], maxPrice = [], sortBy = ''name'', sortOrder = ''asc''\<rparr>\<rparr>"

definition example_cart_json :: json where
  "example_cart_json =
     JArr [JObj [(''id'', JNum (Finite False 7 [])), (''price'', JNum (Finite False 10 [])),
                 (''quantity'', JNum (Finite False 2 []))]]"

definition example_cart_text :: string where
  \<open>example_cart_text = ''[{"id":7,"price":10,"quantity":2}]''\<close>

text \<open>A cart line at price 99.99 whose quantity is \<open>NaN\<close>, and what is stored and loaded for it.\<close>

definition nan_cart_json :: json where
  "nan_cart_json =
     JArr [JObj [(''id'', JNum (Finite False 7 [])), (''price'', JNum (Finite False 99 [9, 9])),
                 (''quantity'', JNum NaN)]]"

definition nan_cart_text :: string where
  \<open>nan_cart_text = ''[{"id":7,"price":99.99,"quantity":null}]''\<close>

definition nan_cart_loaded :: json where
  "nan_cart_loaded =
     JArr [JObj [(''id'', JNum (Finite False 7 [])), (''price'', JNum (Finite False 99 [9, 9])),
                 (''quantity'', JNull)]]"

text \<open>A parser on the two example texts; every other input is refused.\<close>

definition example_parse :: "string \<Rightarrow> js_exn + json" where
  "example_parse text =
     (if text = example_cart_text then Inr example_cart_json
      else if text = ''[]'' then Inr (JArr [])
      else Inl SyntaxError)"

definition empty_storage :: local_storage where
  "empty_storage = \<lparr>entries = Map.empty, accessible = True, free_space = 5000\<rparr>"

definition example_catalog_desc :: "product list \<Rightarrow> product_state" where
  "example_catalog_desc ps = \<lparr>products = ps, searchQuery = [],
     filters = \<lparr>category = [], minPrice = [], maxPrice = [], sortBy = ''price'', sortOrder = ''desc''\<rparr>\<rparr>"

section \<open>Auxiliary lemmas\<close>

lemma foldl_add_sum: "foldl (\<lambda>a x. a + f x) z xs = z + sum_list (map f xs)" for z :: rat
  by (induction xs arbitrary: z) (simp_all add: add.assoc)

lemma find_None_list_ex: "(find P xs = None) = (\<not> list_ex P xs)"
  by (induction xs) auto

lemma items_addToCart:
  "items (addToCart p qa st) =
     (if list_ex (\<lambda>item. prod_id item = prod_id p) (items st)
      then map (\<lambda>item. if prod_id item = prod_id p
                        then item\<lparr>quantity := quantity item + default_quantity qa\<rparr>
                        else item) (items st)
      else items st @ [p\<lparr>quantity := default_quantity qa\<rparr>])"
  by (cases "find (\<lambda>item. prod_id item = prod_id p) (items st)")
     (auto simp: addToCart_def Let_def find_None_list_ex[symmetric])

lemma error_addToCart: "error (addToCart p qa st) = error st"
  by (simp add: addToCart_def Let_def split: option.split)

lemma map_no_match: "\<not> list_ex P xs \<Longrightarrow> map (\<lambda>x. if P x then f x else x) xs = xs"
  by (induction xs) auto

section \<open>Cart totals\<close>

text \<open>
  Claim C1. After every step of every sequence of \<open>addToCart\<close>, \<open>updateQuantity\<close>,
  \<open>removeFromCart\<close> and \<open>clearCart\<close> from the initial empty cart (the state after the first
  \<open>n\<close> mutations, for every \<open>n\<close>), \<open>getCartItemCount\<close> is the sum of the quantities of the
  items and \<open>getCartTotal\<close> is the sum of price times quantity. The state record has no
  field for either total: both are folds over the item list.
\<close>

theorem cart_totals_no_drift:
  "getCartItemCount (run_mutations (take n ms))
     = (\<Sum>item\<leftarrow>items (run_mutations (take n ms)). quantity item)
   \<and> getCartTotal (run_mutations (take n ms))
     = (\<Sum>item\<leftarrow>items (run_mutations (take n ms)). price item * quantity item)"
  by (simp add: getCartItemCount_def getCartTotal_def foldl_add_sum)

text \<open>
  The scenario of the specification: product 7 at price 10 added with quantity 2, then
  with quantity 1, then set to quantity 0.
\<close>

theorem cart_totals_no_drift_witness:
  "getCartItemCount (run_mutations (take 1 [AddToCart example_item (Some 2),
       AddToCart example_item (Some 1), UpdateQuantity (Num_key 7) 0])) = 2
   \<and> getCartTotal (run_mutations (take 1 [AddToCart example_item (Some 2),
       AddToCart example_item (Some 1), UpdateQuantity (Num_key 7) 0])) = 20
   \<and> getCartItemCount (run_mutations (take 2 [AddToCart example_item (Some 2),
       AddToCart example_item (Some 1), UpdateQuantity (Num_key 7) 0])) = 3
   \<and> getCartTotal (run_mutations (take 2 [AddToCart example_item (Some 2),
       AddToCart example_item (Some 1), UpdateQuantity (Num_key 7) 0])) = 30
   \<and> getCartItemCount (run_mutations (take 3 [AddToCart example_item (Some 2),
       AddToCart example_item (Some 1), UpdateQuantity (Num_key 7) 0])) = 0
   \<and> getCartTotal (run_mutations (take 3 [AddToCart example_item (Some 2),
       AddToCart example_item (Some 1), UpdateQuantity (Num_key 7) 0])) = 0"
  using cart_totals_no_drift[of 1 "[AddToCart example_item (Some 2),
       AddToCart example_item (Some 1), UpdateQuantity (Num_key 7) 0]"]
    cart_totals_no_drift[of 2 "[AddToCart example_item (Some 2),
       AddToCart example_item (Some 1), UpdateQuantity (Num_key 7) 0]"]
    cart_totals_no_drift[of 3 "[AddToCart example_item (Some 2),
       AddToCart example_item (Some 1), UpdateQuantity (Num_key 7) 0]"]
  by (simp add: run_mutations_def addToCart_def updateQuantity_def removeFromCart_def
        initialState_def default_quantity_def Let_def strict_eq_id_def
        example_item_def example_product_def product.extend_def cart_item.fields_def)

section \<open>Adding to the cart\<close>

text \<open>
  Claim C2. \<open>addToCart\<close> on any cart state: if a line with the id of the added product is
  in the cart, the item list is the old one with the added quantity added to the quantity
  of that line, so the unit prices and the order of the lines are as before; otherwise
  the item list is the old one followed by the new line.
\<close>

theorem addToCart_increments_or_appends:
  "(list_ex (\<lambda>item. prod_id item = prod_id p) (items st) \<longrightarrow>
      items (addToCart p qa st) =
        map (\<lambda>item. if prod_id item = prod_id p
                     then item\<lparr>quantity := quantity item + default_quantity qa\<rparr>
                     else item) (items st)
      \<and> map price (items (addToCart p qa st)) = map price (items st)
      \<and> map prod_id (items (addToCart p qa st)) = map prod_id (items st))
   \<and> (\<not> list_ex (\<lambda>item. prod_id item = prod_id p) (items st) \<longrightarrow>
      items (addToCart p qa st) = items st @ [p\<lparr>quantity := default_quantity qa\<rparr>])"
  unfolding items_addToCart by (auto simp: comp_def intro!: map_idI)

theorem addToCart_increments_or_appends_witness:
  "\<not> list_ex (\<lambda>item. prod_id item = prod_id example_item) (items initialState)
   \<and> items (addToCart example_item (Some 2) initialState) = [example_item\<lparr>quantity := 2\<rparr>]
   \<and> list_ex (\<lambda>item. prod_id item = prod_id example_item)
         (items (addToCart example_item (Some 2) initialState))
   \<and> items (addToCart (example_item\<lparr>price := 12\<rparr>) None
               (addToCart example_item (Some 2) initialState))
       = [example_item\<lparr>quantity := 3\<rparr>]"
  using addToCart_increments_or_appends[of example_item initialState "Some 2"]
        addToCart_increments_or_appends[of "example_item\<lparr>price := 12\<rparr>"
          "addToCart example_item (Some 2) initialState" None]
  by (simp add: initialState_def default_quantity_def)

text \<open>
  Claim C3, at the input where the code departs from it. From the empty cart, product 7 is
  added from the detail page in size M and then in size L (colour Red both times). The two
  additions carry different \<open>cartId\<close>s, but the reducer compares \<open>id\<close>, so the cart holds
  one line: quantity 2, size M, \<open>cartId\<close> 7-M-Red. The cart page addresses that line by
  its \<open>cartId\<close>, which no \<open>id\<close> equals, so its removal changes nothing.
\<close>

theorem variants_of_one_product_share_a_line:
  "items (handleAddToCart (Some example_product) 1 ''L'' ''Red''
            (handleAddToCart (Some example_product) 1 ''M'' ''Red'' initialState))
     = [product.extend example_product (cart_item.fields 2 ''M'' ''Red'' (Some ''7-M-Red''))]
   \<and> make_cartId 7 ''M'' ''Red'' \<noteq> make_cartId 7 ''L'' ''Red''
   \<and> removeFromCart (Str_key ''7-M-Red'')
        (handleAddToCart (Some example_product) 1 ''M'' ''Red'' initialState)
       = handleAddToCart (Some example_product) 1 ''M'' ''Red'' initialState"
  by code_simp

text \<open>
  Claim C4 as stated fails: adding with quantity 0, or with quantity 1/2, to the empty cart
  reports no error and leaves a line with that quantity in the cart.
\<close>

theorem addToCart_no_validation_counterexample:
  "items (addToCart example_item (Some 0) initialState) = [example_item\<lparr>quantity := 0\<rparr>]
   \<and> items (addToCart example_item (Some 0) initialState) \<noteq> items initialState
   \<and> error (addToCart example_item (Some 0) initialState) = None
   \<and> items (addToCart example_item (Some (1/2)) initialState) = [example_item\<lparr>quantity := 1/2\<rparr>]
   \<and> error (addToCart example_item (Some (1/2)) initialState) = None"
  by (simp add: addToCart_def initialState_def default_quantity_def Let_def)

text \<open>
  Claim C4, amended. \<open>addToCart\<close> does not validate the quantity: for every cart state and
  every quantity, also one below 1 or not an integer, it reports no error and applies the
  quantity as given: a new line with that quantity is appended, or the quantity is added
  to the line of the same id.
\<close>

theorem addToCart_accepts_any_quantity:
  "error (addToCart p (Some q) st) = error st
   \<and> (\<not> list_ex (\<lambda>item. prod_id item = prod_id p) (items st) \<longrightarrow>
        items (addToCart p (Some q) st) = items st @ [p\<lparr>quantity := q\<rparr>])
   \<and> (list_ex (\<lambda>item. prod_id item = prod_id p) (items st) \<longrightarrow>
        items (addToCart p (Some q) st)
          = map (\<lambda>item. if prod_id item = prod_id p
                         then item\<lparr>quantity := quantity item + q\<rparr> else item)
              (items st))"
  by (simp add: items_addToCart error_addToCart default_quantity_def)

theorem addToCart_accepts_any_quantity_witness:
  "\<not> list_ex (\<lambda>item. prod_id item = prod_id example_item) (items initialState)
   \<and> items (addToCart example_item (Some (- 1)) initialState) = [example_item\<lparr>quantity := - 1\<rparr>]
   \<and> list_ex (\<lambda>item. prod_id item = prod_id example_item)
         (items (addToCart example_item (Some 2) initialState))
   \<and> items (addToCart example_item (Some (1/2)) (addToCart example_item (Some 2) initialState))
        = [example_item\<lparr>quantity := 5/2\<rparr>]
   \<and> error (addToCart example_item (Some (1/2)) (addToCart example_item (Some 2) initialState))
        = None"
  using addToCart_accepts_any_quantity[of example_item "- 1" initialState]
        addToCart_accepts_any_quantity[of example_item "1/2"
          "addToCart example_item (Some 2) initialState"]
  by (simp add: addToCart_def initialState_def default_quantity_def Let_def)

section \<open>Changing a quantity\<close>

text \<open>
  Claim C5. For every cart state, id and quantity \<open>q \<le> 0\<close>, \<open>updateQuantity\<close> gives the
  state \<open>removeFromCart\<close> gives: the lines of that id are filtered out and nothing else
  changes.
\<close>

theorem updateQuantity_nonpositive_is_remove:
  "q \<le> 0 \<Longrightarrow>
     updateQuantity k q st = removeFromCart k st
     \<and> items (updateQuantity k q st) = filter (\<lambda>item. \<not> strict_eq_id item k) (items st)
     \<and> loading (updateQuantity k q st) = loading st
     \<and> error (updateQuantity k q st) = error st"
  by (simp add: updateQuantity_def removeFromCart_def)

theorem updateQuantity_nonpositive_is_remove_witness:
  "(0::rat) \<le> 0 \<and> (- 3::rat) \<le> 0
   \<and> updateQuantity (Num_key 7) 0 (addToCart example_item (Some 2) initialState)
       = removeFromCart (Num_key 7) (addToCart example_item (Some 2) initialState)
   \<and> items (updateQuantity (Num_key 7) (- 3) (addToCart example_item (Some 2) initialState)) = []"
  using updateQuantity_nonpositive_is_remove[of 0 "Num_key 7"
          "addToCart example_item (Some 2) initialState"]
        updateQuantity_nonpositive_is_remove[of "- 3" "Num_key 7"
          "addToCart example_item (Some 2) initialState"]
  by (simp add: updateQuantity_def removeFromCart_def addToCart_def initialState_def
        default_quantity_def Let_def strict_eq_id_def
        example_item_def example_product_def product.extend_def cart_item.fields_def)

text \<open>
  Claim C6 as stated fails: in a cart that holds product 7 only, \<open>updateQuantity\<close> of id 9
  to quantity 3 reports no error and returns the state it was given.
\<close>

theorem updateQuantity_absent_counterexample:
  "\<not> list_ex (\<lambda>item. strict_eq_id item (Num_key 9))
        (items (addToCart example_item (Some 2) initialState))
   \<and> error (updateQuantity (Num_key 9) 3 (addToCart example_item (Some 2) initialState)) = None
   \<and> updateQuantity (Num_key 9) 3 (addToCart example_item (Some 2) initialState)
       = addToCart example_item (Some 2) initialState"
  by (simp add: updateQuantity_def addToCart_def initialState_def default_quantity_def Let_def
        strict_eq_id_def example_item_def example_product_def product.extend_def
        cart_item.fields_def)

text \<open>
  Claim C6, amended. \<open>updateQuantity\<close> with a positive quantity never fails, whether or not
  the id is in the cart: the error and loading fields are as before, and the item list is
  the old one, line by line, with the quantity replaced in the lines of that id.
\<close>

theorem updateQuantity_never_fails:
  "0 < q \<Longrightarrow>
     error (updateQuantity k q st) = error st
     \<and> loading (updateQuantity k q st) = loading st
     \<and> items (updateQuantity k q st)
         = map (\<lambda>item. if strict_eq_id item k then item\<lparr>quantity := q\<rparr> else item) (items st)
     \<and> length (items (updateQuantity k q st)) = length (items st)"
  by (simp add: updateQuantity_def)

theorem updateQuantity_never_fails_witness:
  "(0::rat) < 3
   \<and> error (updateQuantity (Num_key 9) 3 initialState) = None
   \<and> items (updateQuantity (Num_key 9) 3 initialState) = []
   \<and> items (updateQuantity (Num_key 7) 3 (addToCart example_item (Some 2) initialState))
       = [example_item\<lparr>quantity := 3\<rparr>]"
  using updateQuantity_never_fails[of 3 "Num_key 9" initialState]
        updateQuantity_never_fails[of 3 "Num_key 7" "addToCart example_item (Some 2) initialState"]
  by (simp add: addToCart_def initialState_def default_quantity_def Let_def strict_eq_id_def
        example_item_def example_product_def product.extend_def cart_item.fields_def)

text \<open>
  Claim C10. For every cart state, \<open>updateQuantity\<close> with a positive quantity and an id that
  no line of the cart has returns the state unchanged: the same item list and the same
  error field.
\<close>

theorem updateQuantity_absent_is_silent_noop:
  "0 < q \<Longrightarrow> \<not> list_ex (\<lambda>item. strict_eq_id item k) (items st) \<Longrightarrow>
     updateQuantity k q st = st"
  by (simp add: updateQuantity_def map_no_match)

theorem updateQuantity_absent_is_silent_noop_witness:
  "(0::rat) < 5
   \<and> \<not> list_ex (\<lambda>item. strict_eq_id item (Str_key ''7-M-Red''))
          (items (addToCart example_item (Some 2) initialState))
   \<and> updateQuantity (Str_key ''7-M-Red'') 5 (addToCart example_item (Some 2) initialState)
       = addToCart example_item (Some 2) initialState"
  using updateQuantity_absent_is_silent_noop[of 5 "Str_key ''7-M-Red''"
          "addToCart example_item (Some 2) initialState"]
  by (simp add: addToCart_def initialState_def default_quantity_def Let_def strict_eq_id_def)

section \<open>Saving and loading the cart\<close>

subsection \<open>Writing a value and reading the text back\<close>

lemma string_of_nat_small: "n < 10 \<Longrightarrow> string_of_nat n = [digit_char n]"
  by (subst string_of_nat.simps) simp

lemma string_of_nat_large:
  "\<not> n < 10 \<Longrightarrow> string_of_nat n = string_of_nat (n div 10) @ [digit_char (n mod 10)]"
  by (subst string_of_nat.simps) simp

lemma of_char_digit_char: "d < 10 \<Longrightarrow> (of_char (digit_char d) :: nat) = 48 + d"
  by (simp add: digit_char_def)

lemma is_digit_iff: "is_digit c \<longleftrightarrow> 48 \<le> (of_char c :: nat) \<and> (of_char c :: nat) \<le> 57"
  by (simp add: is_digit_def less_eq_char_def)

lemma is_digit_digit_char: "d < 10 \<Longrightarrow> is_digit (digit_char d)"
  by (simp add: is_digit_iff of_char_digit_char)

lemma digit_val_digit_char: "d < 10 \<Longrightarrow> digit_val (digit_char d) = d"
  by (simp add: digit_val_def of_char_digit_char)

lemma string_of_nat_digits: "c \<in> set (string_of_nat n) \<Longrightarrow> is_digit c"
proof (induction n arbitrary: c rule: string_of_nat.induct)
  case (1 n)
  show ?case
  proof (cases "n < 10")
    case True
    with "1.prems" show ?thesis by (simp add: string_of_nat_small is_digit_digit_char)
  next
    case False
    with "1.prems" "1.IH" show ?thesis
      by (auto simp: string_of_nat_large is_digit_digit_char)
  qed
qed

lemma string_of_nat_not_Nil: "string_of_nat n \<noteq> []"
  by (cases "n < 10") (simp_all add: string_of_nat_small string_of_nat_large)

lemma nat_of_digits_snoc: "nat_of_digits (ds @ [d]) = 10 * nat_of_digits ds + d"
  by (simp add: nat_of_digits_def)

lemma nat_of_digits_string_of_nat: "nat_of_digits (map digit_val (string_of_nat n)) = n"
proof (induction n rule: string_of_nat.induct)
  case (1 n)
  show ?case
  proof (cases "n < 10")
    case True
    then show ?thesis
      by (simp add: string_of_nat_small nat_of_digits_def digit_val_digit_char)
  next
    case False
    with "1.IH" show ?thesis
      by (simp add: string_of_nat_large nat_of_digits_snoc digit_val_digit_char)
  qed
qed

lemma digit_char_not_zero: "0 < d \<Longrightarrow> d < 10 \<Longrightarrow> digit_char d \<noteq> CHR ''0''"
proof
  assume "0 < d" "d < 10" "digit_char d = CHR ''0''"
  then have "(of_char (digit_char d) :: nat) = of_char CHR ''0''" by simp
  with \<open>0 < d\<close> \<open>d < 10\<close> show False by (simp add: of_char_digit_char)
qed

lemma hd_string_of_nat: "0 < n \<Longrightarrow> hd (string_of_nat n) \<noteq> CHR ''0''"
proof (induction n rule: string_of_nat.induct)
  case (1 n)
  show ?case
  proof (cases "n < 10")
    case True
    with "1.prems" show ?thesis by (simp add: string_of_nat_small digit_char_not_zero)
  next
    case False
    then have "0 < n div 10" by simp
    with "1.IH" False have "hd (string_of_nat (n div 10)) \<noteq> CHR ''0''" by simp
    with False show ?thesis
      by (simp add: string_of_nat_large string_of_nat_not_Nil)
  qed
qed

lemma no_leading_zero:
  "\<not> (1 < length (string_of_nat n) \<and> hd (string_of_nat n) = CHR ''0'')"
  by (cases "n = 0") (simp_all add: string_of_nat_small hd_string_of_nat)

lemma ends_value_cases:
  assumes "ends_value rest"
  obtains (empty) "rest = []"
        | (tail) c cs where "rest = c # cs" "\<not> is_digit c" "c \<noteq> CHR ''.''" "c \<noteq> CHR ''e''"
            "c \<noteq> CHR ''E''" "\<not> is_ws c" "c = CHR '','' \<or> c = CHR '']'' \<or> c = CHR ''}''"
proof (cases rest)
  case Nil
  then show thesis by (rule empty)
next
  case (Cons c cs)
  with assms have c: "c = CHR '','' \<or> c = CHR '']'' \<or> c = CHR ''}''"
    by (simp add: ends_value_def)
  then have n: "\<not> is_digit c" "c \<noteq> CHR ''.''" "c \<noteq> CHR ''e''" "c \<noteq> CHR ''E''" "\<not> is_ws c"
    by (auto simp: is_digit_iff is_ws_def)
  show thesis by (rule tail[OF Cons n c])
qed

lemma takeWhile_digits:
  assumes "\<And>c. c \<in> set ds \<Longrightarrow> is_digit c" and "rest = [] \<or> \<not> is_digit (hd rest)"
  shows "takeWhile is_digit (ds @ rest) = ds"
proof -
  have "takeWhile is_digit rest = []" using assms(2) by (cases rest) auto
  with assms(1) show ?thesis by (simp add: takeWhile_append2)
qed

lemma dropWhile_digits:
  assumes "\<And>c. c \<in> set ds \<Longrightarrow> is_digit c" and "rest = [] \<or> \<not> is_digit (hd rest)"
  shows "dropWhile is_digit (ds @ rest) = rest"
proof -
  have "dropWhile is_digit rest = rest" using assms(2) by (cases rest) auto
  with assms(1) show ?thesis by (simp add: dropWhile_append2)
qed

lemma strip_zeros_id: "places = [] \<or> last places \<noteq> 0 \<Longrightarrow> strip_zeros places = places"
proof (cases "places = []")
  case True
  then show ?thesis by (simp add: strip_zeros_def)
next
  case False
  assume "places = [] \<or> last places \<noteq> 0"
  with False have "last places \<noteq> 0" by simp
  with False have "hd (rev places) \<noteq> 0" by (simp add: hd_rev)
  moreover from False have "rev places \<noteq> []" by simp
  ultimately have "dropWhile (\<lambda>d. d = 0) (rev places) = rev places"
    by (cases "rev places") auto
  then show ?thesis by (simp add: strip_zeros_def)
qed

lemma map_digit_val_digit_char:
  "list_all (\<lambda>d. d < 10) places \<Longrightarrow> map digit_val (map digit_char places) = places"
  by (induction places) (simp_all add: digit_val_digit_char)

lemma parse_fraction_text:
  assumes "list_all (\<lambda>d. d < 10) places" and "ends_value rest"
  shows "parse_fraction ((if places = [] then [] else CHR ''.'' # map digit_char places) @ rest)
         = Some (map digit_char places, rest)"
proof (cases "places = []")
  case True
  from assms(2) show ?thesis
    by (cases rule: ends_value_cases) (auto simp: True parse_fraction_def)
next
  case False
  have d: "\<And>c. c \<in> set (map digit_char places) \<Longrightarrow> is_digit c"
    using assms(1) by (auto simp: list_all_iff is_digit_digit_char)
  have r: "rest = [] \<or> \<not> is_digit (hd rest)"
    using assms(2) by (cases rule: ends_value_cases) auto
  have tw: "takeWhile is_digit (map digit_char places @ rest) = map digit_char places"
    using d r by (rule takeWhile_digits)
  have dw: "dropWhile is_digit (map digit_char places @ rest) = rest"
    using d r by (rule dropWhile_digits)
  from False show ?thesis
    by (simp add: parse_fraction_def tw dw)
qed

lemma parse_exponent_none: "ends_value rest \<Longrightarrow> parse_exponent rest = Some (None, rest)"
  by (erule ends_value_cases) (auto simp: parse_exponent_def)

lemma parse_unsigned:
  assumes p: "list_all (\<lambda>d. d < 10) places" "places = [] \<or> last places \<noteq> 0"
      and r: "ends_value rest"
      and t1: "t1 = string_of_nat whole @ (if places = [] then [] else CHR ''.'' # map digit_char places) @ rest"
  shows "takeWhile is_digit t1 = string_of_nat whole"
    and "dropWhile is_digit t1 = (if places = [] then [] else CHR ''.'' # map digit_char places) @ rest"
proof -
  let ?f = "(if places = [] then [] else CHR ''.'' # map digit_char places) @ rest"
  have "\<not> is_digit CHR ''.''" by (simp add: is_digit_iff)
  moreover have "rest = [] \<or> \<not> is_digit (hd rest)"
    using r by (cases rule: ends_value_cases) auto
  ultimately have f: "?f = [] \<or> \<not> is_digit (hd ?f)" by auto
  show "takeWhile is_digit t1 = string_of_nat whole"
    unfolding t1 by (rule takeWhile_digits[OF string_of_nat_digits f])
  show "dropWhile is_digit t1 = ?f"
    unfolding t1 by (rule dropWhile_digits[OF string_of_nat_digits f])
qed

lemma hd_string_of_nat_not_minus: "string_of_nat n = c # cs \<Longrightarrow> c \<noteq> CHR ''-''"
proof -
  assume "string_of_nat n = c # cs"
  then have "c \<in> set (string_of_nat n)" by simp
  then have "is_digit c" by (rule string_of_nat_digits)
  then show ?thesis by (auto simp: is_digit_iff)
qed

lemma parse_number_text:
  assumes x: "number_representable x" and r: "ends_value rest"
  shows "parse_number (number_text x @ rest) = Some (x, rest)"
proof -
  from x obtain negative whole places where
    xe: "x = Finite negative whole places"
    and p: "list_all (\<lambda>d. d < 10) places" "places = [] \<or> last places \<noteq> 0"
    and z: "\<not> (negative \<and> whole = 0 \<and> places = [])"
    by (cases x) (auto simp: number_representable_def)
  define f where "f = (if places = [] then [] else CHR ''.'' # map digit_char places) @ rest"
  define w where "w = string_of_nat whole"
  obtain c cs where s: "w = c # cs"
    using string_of_nat_not_Nil[of whole] by (cases w) (auto simp: w_def)
  have c: "c \<noteq> CHR ''-''" using s unfolding w_def by (rule hd_string_of_nat_not_minus)
  have nt: "number_text x @ rest = (if negative then ''-'' else []) @ w @ f"
    using z by (auto simp: xe number_text_def f_def w_def)
  have sign: "(case number_text x @ rest of
                 [] \<Rightarrow> (False, [])
               | c # cs \<Rightarrow> if c = CHR ''-'' then (True, cs) else (False, number_text x @ rest))
              = (negative, w @ f)"
    unfolding nt using c by (cases negative) (simp_all add: s)
  have tw: "takeWhile is_digit (w @ f) = w"
    and dw: "dropWhile is_digit (w @ f) = f"
    using parse_unsigned[OF p r refl, of whole] by (simp_all add: f_def w_def)
  have fr: "parse_fraction f = Some (map digit_char places, rest)"
    unfolding f_def by (rule parse_fraction_text[OF p(1) r])
  have ex: "parse_exponent rest = Some (None, rest)"
    by (rule parse_exponent_none[OF r])
  have mk: "make_number negative (map digit_val w)
              (map digit_val (map digit_char places)) None = x"
    by (simp add: make_number_def nat_of_digits_string_of_nat map_digit_val_digit_char[OF p(1)]
          strip_zeros_id[OF p(2)] xe w_def del: map_map)
  have lz: "\<not> (w = [] \<or> 1 < length w \<and> hd w = CHR ''0'')"
    using no_leading_zero[of whole] string_of_nat_not_Nil[of whole] by (simp add: w_def)
  show ?thesis
    unfolding parse_number_def sign
    using lz by (simp add: tw dw fr ex mk del: map_map)
qed

lemma hex_val_hex_char: "d < 16 \<Longrightarrow> hex_val (hex_char d) = Some d"
proof (cases "d < 10")
  case True
  then show ?thesis by (simp add: hex_val_def hex_char_def is_digit_digit_char digit_val_digit_char)
next
  case False
  assume "d < 16"
  with False have o: "(of_char (char_of (97 + (d - 10))) :: nat) = 97 + (d - 10)" by simp
  from False \<open>d < 16\<close> show ?thesis
    by (simp add: hex_val_def hex_char_def is_digit_iff less_eq_char_def o)
qed

lemma hex_val_zero: "hex_val CHR ''0'' = Some 0"
  by (simp add: hex_val_def is_digit_iff digit_val_def)

lemma unicode_escape_control:
  assumes "(of_char c :: nat) < 32"
  shows "unicode_escape CHR ''0'' CHR ''0'' (hex_char (of_char c div 16)) (hex_char (of_char c mod 16))
         = Some c"
proof -
  have h: "hex_val (hex_char (of_char c div 16)) = Some (of_char c div 16)"
    using assms by (intro hex_val_hex_char) simp
  have l: "hex_val (hex_char (of_char c mod 16)) = Some (of_char c mod 16)"
    by (intro hex_val_hex_char) simp
  have "char_of (16 * ((of_char c :: nat) div 16) + of_char c mod 16) = c" by simp
  then show ?thesis by (simp add: unicode_escape_def hex_val_zero h l)
qed

lemma parse_escape_char:
  "parse_string_body (escape_char c @ text) = cons_char c (parse_string_body text)"
proof -
  consider (quote) "c = CHR 0x22" | (backslash) "c = CHR 0x5C"
    | (short) "c = CHR 0x08 \<or> c = CHR 0x09 \<or> c = CHR 0x0A \<or> c = CHR 0x0C \<or> c = CHR 0x0D"
    | (control) "c \<noteq> CHR 0x22" "c \<noteq> CHR 0x5C" "c \<noteq> CHR 0x08" "c \<noteq> CHR 0x09" "c \<noteq> CHR 0x0A"
        "c \<noteq> CHR 0x0C" "c \<noteq> CHR 0x0D" "(of_char c :: nat) < 32"
    | (plain) "c \<noteq> CHR 0x22" "c \<noteq> CHR 0x5C" "\<not> (of_char c :: nat) < 32"
    by (cases "(of_char c :: nat) < 32") auto
  then show ?thesis
  proof cases
    case quote
    then show ?thesis by (simp add: escape_char_def unescape_def)
  next
    case backslash
    then show ?thesis by (simp add: escape_char_def unescape_def)
  next
    case short
    then show ?thesis by (auto simp: escape_char_def unescape_def)
  next
    case control
    then show ?thesis by (simp add: escape_char_def unicode_escape_control)
  next
    case plain
    then have "escape_char c = [c]"
      by (auto simp: escape_char_def)
    with plain show ?thesis by simp
  qed
qed

lemma parse_string_text:
  "parse_string_body (concat (map escape_char s) @ CHR 0x22 # rest) = Some (s, rest)"
  by (induction s) (simp_all add: parse_escape_char cons_char_def)

lemma parse_quote_string:
  "quote_string s @ rest = CHR 0x22 # (concat (map escape_char s) @ CHR 0x22 # rest)"
  by (simp add: quote_string_def)

lemma skip_ws_Cons: "\<not> is_ws c \<Longrightarrow> skip_ws (c # cs) = c # cs"
  by (simp add: skip_ws_def)

lemma skip_ws_ends_value: "ends_value rest \<Longrightarrow> skip_ws rest = rest"
  by (erule ends_value_cases) (simp_all add: skip_ws_def)

lemma parse_value_null: "parse_value (Suc n) (''null'' @ rest) = Some (JNull, rest)"
  by (simp add: skip_ws_def is_ws_def)

lemma parse_value_true: "parse_value (Suc n) (''true'' @ rest) = Some (JBool True, rest)"
  by (simp add: skip_ws_def is_ws_def)

lemma parse_value_false: "parse_value (Suc n) (''false'' @ rest) = Some (JBool False, rest)"
  by (simp add: skip_ws_def is_ws_def)

lemma parse_value_string:
  "parse_value (Suc n) (quote_string s @ rest) = Some (JStr s, rest)"
  by (simp add: parse_quote_string skip_ws_def is_ws_def parse_string_text)

lemma number_text_first:
  assumes "number_representable x"
  obtains c cs where "number_text x = c # cs" "c = CHR ''-'' \<or> is_digit c"
proof -
  from assms obtain negative whole places where xe: "x = Finite negative whole places"
    by (cases x) (auto simp: number_representable_def)
  obtain d ds where s: "string_of_nat whole = d # ds"
    using string_of_nat_not_Nil[of whole] by (cases "string_of_nat whole") auto
  then have "d \<in> set (string_of_nat whole)" by simp
  then have d: "is_digit d" by (rule string_of_nat_digits)
  show thesis
  proof (cases "negative \<and> \<not> (whole = 0 \<and> places = [])")
    case True
    then have "number_text x = CHR ''-'' # (string_of_nat whole
                @ (if places = [] then [] else CHR ''.'' # map digit_char places))"
      by (simp add: xe number_text_def)
    then show thesis by (intro that[of "CHR ''-''"]) auto
  next
    case False
    then have "number_text x = d # (ds
                @ (if places = [] then [] else CHR ''.'' # map digit_char places))"
      by (simp add: xe number_text_def s)
    with d show thesis by (intro that[of d]) auto
  qed
qed

lemma parse_value_number:
  assumes x: "number_representable x" and r: "ends_value rest"
  shows "parse_value (Suc n) (number_text x @ rest) = Some (JNum x, rest)"
proof -
  from x obtain c cs where t: "number_text x = c # cs" and c: "c = CHR ''-'' \<or> is_digit c"
    by (rule number_text_first)
  from c have n: "\<not> is_ws c" "c \<noteq> CHR ''[''" "c \<noteq> CHR ''{''" "c \<noteq> CHR 0x22"
    "c \<noteq> CHR ''n''" "c \<noteq> CHR ''t''" "c \<noteq> CHR ''f''"
    by (auto simp: is_ws_def is_digit_iff)
  have p: "parse_number (c # cs @ rest) = Some (x, rest)"
    using parse_number_text[OF x r] by (simp add: t)
  show ?thesis
    using n by (simp add: t skip_ws_Cons p)
qed

lemma join_comma_Cons: "ts \<noteq> [] \<Longrightarrow> join_comma (t # ts) = t @ CHR '','' # join_comma ts"
  by (cases ts) simp_all

lemma obj_put_fresh: "k \<notin> fst ` set acc \<Longrightarrow> obj_put acc k v = acc @ [(k, v)]"
  by (induction acc) auto

lemma parse_elements_last:
  assumes "parse_value m (t @ CHR '']'' # rest) = Some (v, CHR '']'' # rest)"
  shows "parse_elements (Suc m) (t @ CHR '']'' # rest) acc = Some (JArr (acc @ [v]), rest)"
  using assms by (simp add: skip_ws_def is_ws_def)

lemma parse_elements_more:
  assumes "parse_value m (t @ CHR '','' # tail) = Some (v, CHR '','' # tail)"
  shows "parse_elements (Suc m) (t @ CHR '','' # tail) acc = parse_elements m tail (acc @ [v])"
  using assms by (simp add: skip_ws_def is_ws_def)

lemma parse_members_key:
  "parse_members (Suc m) (quote_string k @ CHR '':'' # text) acc =
     (case parse_value m text of
        None \<Rightarrow> None
      | Some (v, rest2) \<Rightarrow>
          (case skip_ws rest2 of
             [] \<Rightarrow> None
           | d # rest3 \<Rightarrow>
               if d = CHR '','' then parse_members m rest3 (obj_put acc k v)
               else if d = CHR ''}'' then Some (JObj (obj_put acc k v), rest3)
               else None))"
  by (simp add: parse_quote_string skip_ws_def is_ws_def parse_string_text)

lemma parse_members_last:
  assumes "parse_value m (t @ CHR ''}'' # rest) = Some (v, CHR ''}'' # rest)"
  shows "parse_members (Suc m) ((quote_string k @ CHR '':'' # t) @ CHR ''}'' # rest) acc
         = Some (JObj (obj_put acc k v), rest)"
proof -
  have e: "(quote_string k @ CHR '':'' # t) @ CHR ''}'' # rest
           = quote_string k @ CHR '':'' # (t @ CHR ''}'' # rest)"
    by simp
  show ?thesis
    unfolding e parse_members_key using assms by (simp add: skip_ws_def is_ws_def)
qed

lemma parse_members_more:
  assumes "parse_value m (t @ CHR '','' # tail) = Some (v, CHR '','' # tail)"
  shows "parse_members (Suc m) ((quote_string k @ CHR '':'' # t) @ CHR '','' # tail) acc
         = parse_members m tail (obj_put acc k v)"
proof -
  have e: "(quote_string k @ CHR '':'' # t) @ CHR '','' # tail
           = quote_string k @ CHR '':'' # (t @ CHR '','' # tail)"
    by simp
  show ?thesis
    unfolding e parse_members_key using assms by (simp add: skip_ws_def is_ws_def)
qed

lemma parse_value_array:
  assumes "body \<noteq> []" "\<not> is_ws (hd body)" "hd body \<noteq> CHR '']''"
  shows "parse_value (Suc n) ((CHR ''['' # body @ '']'') @ rest)
         = parse_elements n (body @ CHR '']'' # rest) []"
  using assms by (cases body) (simp_all add: skip_ws_def is_ws_def)

lemma parse_value_object:
  assumes "body \<noteq> []" "hd body = CHR 0x22"
  shows "parse_value (Suc n) ((CHR ''{'' # body @ ''}'') @ rest)
         = parse_members n (body @ CHR ''}'' # rest) []"
  using assms by (cases body) (simp_all add: skip_ws_def is_ws_def)

lemma parse_value_empty_array: "parse_value (Suc n) (''[]'' @ rest) = Some (JArr [], rest)"
  by (simp add: skip_ws_def is_ws_def)

lemma parse_value_empty_object: "parse_value (Suc n) (''{}'' @ rest) = Some (JObj [], rest)"
  by (simp add: skip_ws_def is_ws_def)

lemma ends_value_simps:
  "ends_value (CHR '','' # tail)" "ends_value (CHR '']'' # tail)" "ends_value (CHR ''}'' # tail)"
  by (simp_all add: ends_value_def)

lemma parse_serialized:
  shows "json_representable v \<Longrightarrow>
           \<exists>t. serialize v = Some t \<and> t \<noteq> [] \<and> \<not> is_ws (hd t) \<and> hd t \<noteq> CHR '']''
             \<and> (\<forall>n rest. length t \<le> n \<longrightarrow> ends_value rest \<longrightarrow>
                    parse_value (Suc n) (t @ rest) = Some (v, rest))"
    and "json_representable_list vs \<Longrightarrow> vs \<noteq> [] \<Longrightarrow>
           join_comma (serialize_elements vs) \<noteq> []
           \<and> \<not> is_ws (hd (join_comma (serialize_elements vs)))
           \<and> hd (join_comma (serialize_elements vs)) \<noteq> CHR '']''
           \<and> (\<forall>m rest acc. length (join_comma (serialize_elements vs)) + 2 \<le> m \<longrightarrow>
                  parse_elements m (join_comma (serialize_elements vs) @ CHR '']'' # rest) acc
                  = Some (JArr (acc @ vs), rest))"
    and "json_representable_members ps \<Longrightarrow> ps \<noteq> [] \<Longrightarrow>
           join_comma (serialize_members ps) \<noteq> []
           \<and> hd (join_comma (serialize_members ps)) = CHR 0x22
           \<and> (\<forall>m rest acc. length (join_comma (serialize_members ps)) + 2 \<le> m \<longrightarrow>
                  distinct (map fst (acc @ ps)) \<longrightarrow>
                  parse_members m (join_comma (serialize_members ps) @ CHR ''}'' # rest) acc
                  = Some (JObj (acc @ ps), rest))"
proof (induction v and vs and ps
    rule: json_representable_json_representable_list_json_representable_members.induct)
  case 1
  then show ?case by simp
next
  case 2
  show ?case using parse_value_null by (simp add: is_ws_def)
next
  case (3 b)
  show ?case using parse_value_true parse_value_false by (cases b) (simp_all add: is_ws_def)
next
  case (4 x)
  then have x: "number_representable x" by simp
  then obtain c cs where t: "number_text x = c # cs" and c: "c = CHR ''-'' \<or> is_digit c"
    by (rule number_text_first)
  from c have "\<not> is_ws c" "c \<noteq> CHR '']''" by (auto simp: is_ws_def is_digit_iff)
  then show ?case using parse_value_number[OF x] by (simp add: t)
next
  case (5 i)
  then show ?case by simp
next
  case (6 s)
  have "quote_string s \<noteq> []" "hd (quote_string s) = CHR 0x22" by (simp_all add: quote_string_def)
  then show ?case using parse_value_string by (simp add: is_ws_def)
next
  case (7 vs)
  show ?case
  proof (cases "vs = []")
    case True
    then show ?thesis using parse_value_empty_array by (simp add: is_ws_def)
  next
    case False
    let ?body = "join_comma (serialize_elements vs)"
    from 7 False have b: "?body \<noteq> []" "\<not> is_ws (hd ?body)" "hd ?body \<noteq> CHR '']''"
      and p: "\<And>m rest acc. length ?body + 2 \<le> m \<Longrightarrow>
                parse_elements m (?body @ CHR '']'' # rest) acc = Some (JArr (acc @ vs), rest)"
      by simp_all
    have "parse_value (Suc n) ((CHR ''['' # ?body @ '']'') @ rest) = Some (JArr vs, rest)"
      if "length (CHR ''['' # ?body @ '']'') \<le> n" for n rest
      using that by (simp only: parse_value_array[OF b]) (simp add: p)
    then show ?thesis by (simp add: is_ws_def)
  qed
next
  case (8 ps)
  show ?case
  proof (cases "ps = []")
    case True
    then show ?thesis using parse_value_empty_object by (simp add: is_ws_def)
  next
    case False
    let ?body = "join_comma (serialize_members ps)"
    from 8 False have b: "?body \<noteq> []" "hd ?body = CHR 0x22"
      and p: "\<And>m rest acc. length ?body + 2 \<le> m \<Longrightarrow> distinct (map fst (acc @ ps)) \<Longrightarrow>
                parse_members m (?body @ CHR ''}'' # rest) acc = Some (JObj (acc @ ps), rest)"
      and d: "distinct (map fst ps)"
      by simp_all
    have "parse_value (Suc n) ((CHR ''{'' # ?body @ ''}'') @ rest) = Some (JObj ps, rest)"
      if "length (CHR ''{'' # ?body @ ''}'') \<le> n" for n rest
      using that d by (simp only: parse_value_object[OF b]) (simp add: p)
    then show ?thesis by (simp add: is_ws_def)
  qed
next
  case 9
  then show ?case by simp
next
  case (10 v vs)
  from "10.prems" have rv: "json_representable v" and rvs: "json_representable_list vs" by simp_all
  from "10.IH"(1)[OF rv] obtain t where
    t: "serialize v = Some t" "t \<noteq> []" "\<not> is_ws (hd t)" "hd t \<noteq> CHR '']''"
    and pt: "\<And>n rest. length t \<le> n \<Longrightarrow> ends_value rest \<Longrightarrow>
               parse_value (Suc n) (t @ rest) = Some (v, rest)"
    by blast
  show ?case
  proof (cases "vs = []")
    case True
    have "parse_elements m (t @ CHR '']'' # rest) acc = Some (JArr (acc @ [v]), rest)"
      if m: "length t + 2 \<le> m" for m rest acc
    proof -
      from m obtain n where n: "m = Suc (Suc n)" "length t \<le> n"
        by (metis add_2_eq_Suc' le_Suc_ex add_Suc_right le_add1 add.commute)
      show ?thesis
        unfolding n(1)
        by (rule parse_elements_last) (rule pt[OF n(2)], simp add: ends_value_simps)
    qed
    with t True show ?thesis by simp
  next
    case False
    let ?body = "join_comma (serialize_elements vs)"
    from "10.IH"(2)[OF rvs False] have
      b: "?body \<noteq> []"
      and p: "\<And>m rest acc. length ?body + 2 \<le> m \<Longrightarrow>
                parse_elements m (?body @ CHR '']'' # rest) acc = Some (JArr (acc @ vs), rest)"
      by simp_all
    from False have se: "serialize_elements vs \<noteq> []" by (cases vs) simp_all
    have j: "join_comma (serialize_elements (v # vs)) = t @ CHR '','' # ?body"
      using t(1) se by (simp add: join_comma_Cons)
    have "parse_elements m ((t @ CHR '','' # ?body) @ CHR '']'' # rest) acc
          = Some (JArr (acc @ v # vs), rest)"
      if m: "length (t @ CHR '','' # ?body) + 2 \<le> m" for m rest acc
    proof -
      from m obtain n where n: "m = Suc (Suc n)" "length t \<le> n" "length ?body + 2 \<le> Suc n"
        by (cases m; cases "m - 1") auto
      have e: "(t @ CHR '','' # ?body) @ CHR '']'' # rest = t @ CHR '','' # (?body @ CHR '']'' # rest)"
        by simp
      have s: "parse_elements (Suc (Suc n)) (t @ CHR '','' # (?body @ CHR '']'' # rest)) acc
            = parse_elements (Suc n) (?body @ CHR '']'' # rest) (acc @ [v])"
        by (rule parse_elements_more) (rule pt[OF n(2)], simp add: ends_value_simps)
      show ?thesis
        unfolding n(1) e s by (simp only: p[OF n(3)] append_assoc append_Cons append_Nil)
    qed
    with t show ?thesis unfolding j by simp
  qed
next
  case 11
  then show ?case by simp
next
  case (12 k v ps)
  from "12.prems" have rv: "json_representable v" and rps: "json_representable_members ps"
    by simp_all
  from "12.IH"(1)[OF rv] obtain t where
    t: "serialize v = Some t"
    and pt: "\<And>n rest. length t \<le> n \<Longrightarrow> ends_value rest \<Longrightarrow>
               parse_value (Suc n) (t @ rest) = Some (v, rest)"
    by blast
  let ?mt = "quote_string k @ CHR '':'' # t"
  have q: "?mt \<noteq> []" "hd ?mt = CHR 0x22" by (simp_all add: quote_string_def)
  have lt: "length t < length ?mt" by simp
  show ?case
  proof (cases "ps = []")
    case True
    have "parse_members m (?mt @ CHR ''}'' # rest) acc = Some (JObj (acc @ [(k, v)]), rest)"
      if m: "length ?mt + 2 \<le> m" and d: "distinct (map fst (acc @ [(k, v)]))" for m rest acc
    proof -
      from m lt obtain n where n: "m = Suc (Suc n)" "length t \<le> n"
        by (cases m; cases "m - 1") auto
      from d have f: "k \<notin> fst ` set acc" by auto
      have s: "parse_members (Suc (Suc n)) (?mt @ CHR ''}'' # rest) acc
            = Some (JObj (obj_put acc k v), rest)"
        by (rule parse_members_last) (rule pt[OF n(2)], simp add: ends_value_simps)
      show ?thesis unfolding n(1) s obj_put_fresh[OF f] by (rule refl)
    qed
    with t q True show ?thesis by simp
  next
    case False
    let ?body = "join_comma (serialize_members ps)"
    from "12.IH"(2)[OF rps False] have
      p: "\<And>m rest acc. length ?body + 2 \<le> m \<Longrightarrow> distinct (map fst (acc @ ps)) \<Longrightarrow>
                parse_members m (?body @ CHR ''}'' # rest) acc = Some (JObj (acc @ ps), rest)"
      and sm: "?body \<noteq> []"
      by simp_all
    from sm have se: "serialize_members ps \<noteq> []" by auto
    have j: "join_comma (serialize_members ((k, v) # ps)) = ?mt @ CHR '','' # ?body"
      using t se by (simp add: join_comma_Cons)
    have q2: "?mt @ CHR '','' # ?body \<noteq> []" "hd (?mt @ CHR '','' # ?body) = CHR 0x22"
      by (simp_all add: quote_string_def)
    have main: "parse_members m ((?mt @ CHR '','' # ?body) @ CHR ''}'' # rest) acc
          = Some (JObj (acc @ (k, v) # ps), rest)"
      if m: "length (?mt @ CHR '','' # ?body) + 2 \<le> m"
        and d: "distinct (map fst (acc @ (k, v) # ps))" for m rest acc
    proof -
      from m lt obtain n where n: "m = Suc (Suc n)" "length t \<le> n" "length ?body + 2 \<le> Suc n"
        by (cases m; cases "m - 1") auto
      from d have f: "k \<notin> fst ` set acc" and d': "distinct (map fst ((acc @ [(k, v)]) @ ps))"
        by auto
      have e: "(?mt @ CHR '','' # ?body) @ CHR ''}'' # rest
               = ?mt @ CHR '','' # (?body @ CHR ''}'' # rest)"
        by simp
      have s: "parse_members (Suc (Suc n)) (?mt @ CHR '','' # (?body @ CHR ''}'' # rest)) acc
            = parse_members (Suc n) (?body @ CHR ''}'' # rest) (obj_put acc k v)"
        by (rule parse_members_more) (rule pt[OF n(2)], simp add: ends_value_simps)
      show ?thesis
        unfolding n(1) e s obj_put_fresh[OF f]
        by (simp only: p[OF n(3) d'] append_assoc append_Cons append_Nil)
    qed
    show ?thesis unfolding j
      by (intro conjI allI impI) (simp_all only: q2 main not_False_eq_True)
  qed
qed

lemma representable_no_bigint:
  shows "json_representable v \<Longrightarrow> \<not> has_bigint v"
    and "json_representable_list vs \<Longrightarrow> \<not> has_bigint_list vs"
    and "json_representable_members ps \<Longrightarrow> \<not> has_bigint_members ps"
  by (induction v and vs and ps
        rule: json_representable_json_representable_list_json_representable_members.induct)
     simp_all

lemma ecma_JSON_roundtrip:
  assumes "json_representable v"
  obtains t where "ecma_JSON_stringify v = Inr (Some t)" "t \<noteq> []" "ecma_JSON_parse t = Inr v"
proof -
  from parse_serialized(1)[OF assms] obtain t where
    t: "serialize v = Some t" "t \<noteq> []"
    and p: "\<And>n rest. length t \<le> n \<Longrightarrow> ends_value rest \<Longrightarrow>
              parse_value (Suc n) (t @ rest) = Some (v, rest)"
    by blast
  have "parse_value (Suc (length t)) (t @ []) = Some (v, [])"
    by (rule p) (simp_all add: ends_value_def)
  then have "ecma_JSON_parse t = Inr v"
    by (simp add: ecma_JSON_parse_def skip_ws_def)
  moreover have "ecma_JSON_stringify v = Inr (Some t)"
    using representable_no_bigint(1)[OF assms] t(1) by (simp add: ecma_JSON_stringify_def)
  ultimately show thesis using t(2) by (intro that[of t]) auto
qed

text \<open>
  Claim C7 as stated fails. A cart line whose quantity is \<open>NaN\<close> serialises without
  failing and \<open>saveCart\<close> answers \<open>true\<close>, but the text holds \<open>null\<close> for the quantity, and
  that is what \<open>getCart\<close> returns. And when the store has no room, the example cart
  serialises, \<open>saveCart\<close> answers \<open>false\<close>, nothing is stored and \<open>getCart\<close> returns the
  empty array.
\<close>

theorem save_then_load_counterexample:
  "ecma_JSON_stringify nan_cart_json = Inr (Some nan_cart_text)
   \<and> saveCart ecma_JSON_stringify nan_cart_json empty_storage
       = Inr (True, empty_storage\<lparr>entries := (entries empty_storage)(''cart'' \<mapsto> nan_cart_text)\<rparr>)
   \<and> getCart ecma_JSON_parse
         (empty_storage\<lparr>entries := (entries empty_storage)(''cart'' \<mapsto> nan_cart_text)\<rparr>)
       = Inr nan_cart_loaded
   \<and> nan_cart_loaded \<noteq> nan_cart_json
   \<and> ecma_JSON_stringify example_cart_json = Inr (Some example_cart_text)
   \<and> saveCart ecma_JSON_stringify example_cart_json (empty_storage\<lparr>free_space := 0\<rparr>)
       = Inr (False, empty_storage\<lparr>free_space := 0\<rparr>)
   \<and> getCart ecma_JSON_parse (empty_storage\<lparr>free_space := 0\<rparr>) = Inr (JArr [])
   \<and> JArr [] \<noteq> example_cart_json"
proof -
  have s1: "ecma_JSON_stringify nan_cart_json = Inr (Some nan_cart_text)"
    by code_simp
  have p1: "ecma_JSON_parse nan_cart_text = Inr nan_cart_loaded"
    by code_simp
  have n1: "nan_cart_text \<noteq> []" "length nan_cart_text \<le> 5000"
    by (simp_all add: nan_cart_text_def)
  have d1: "nan_cart_loaded \<noteq> nan_cart_json"
    by (simp add: nan_cart_loaded_def nan_cart_json_def)
  have s2: "ecma_JSON_stringify example_cart_json = Inr (Some example_cart_text)"
    by code_simp
  have n2: "example_cart_text \<noteq> []"
    by (simp add: example_cart_text_def)
  have d2: "JArr [] \<noteq> example_cart_json"
    by (simp add: example_cart_json_def)
  have a: "saveCart ecma_JSON_stringify nan_cart_json empty_storage
       = Inr (True, empty_storage\<lparr>entries := (entries empty_storage)(''cart'' \<mapsto> nan_cart_text)\<rparr>)"
    using n1 by (simp add: saveCart_def try_catch_def setItem_ls_def s1 empty_storage_def)
  have b: "getCart ecma_JSON_parse
         (empty_storage\<lparr>entries := (entries empty_storage)(''cart'' \<mapsto> nan_cart_text)\<rparr>)
       = Inr nan_cart_loaded"
    using n1 by (simp add: getCart_def try_catch_def getItem_ls_def p1 empty_storage_def)
  have c: "saveCart ecma_JSON_stringify example_cart_json (empty_storage\<lparr>free_space := 0\<rparr>)
       = Inr (False, empty_storage\<lparr>free_space := 0\<rparr>)"
    using n2 by (simp add: saveCart_def try_catch_def setItem_ls_def s2 empty_storage_def)
  have d: "getCart ecma_JSON_parse (empty_storage\<lparr>free_space := 0\<rparr>) = Inr (JArr [])"
    by (simp add: getCart_def try_catch_def getItem_ls_def empty_storage_def)
  from s1 a b d1 s2 c d d2 show ?thesis by blast
qed

text \<open>
  Claim C7, amended. For every cart item list that JSON represents (built from \<open>null\<close>,
  booleans, finite numbers other than \<open>-0\<close>, strings, arrays and objects with distinct keys,
  with no \<open>undefined\<close>, \<open>NaN\<close>, infinity or BigInt anywhere inside), if \<open>saveCart\<close> answers
  \<open>true\<close>, then \<open>getCart\<close> on the store after the save returns the list that was saved.
  The JSON functions are the model of the standard above, not parameters.
\<close>

theorem save_then_load_roundtrip:
  assumes "saveCart ecma_JSON_stringify v ls = Inr (True, ls')"
      and "json_representable v"
  shows "getCart ecma_JSON_parse ls' = Inr v"
proof -
  from assms(2) obtain t where
    t: "ecma_JSON_stringify v = Inr (Some t)" "t \<noteq> []" "ecma_JSON_parse t = Inr v"
    by (rule ecma_JSON_roundtrip)
  from assms(1) have "accessible ls'" "entries ls' ''cart'' = Some t"
    by (auto simp: saveCart_def try_catch_def setItem_ls_def t(1) split: if_splits)
  then show ?thesis
    by (simp add: getCart_def try_catch_def getItem_ls_def t(2,3))
qed

theorem save_then_load_roundtrip_witness:
  "saveCart ecma_JSON_stringify example_cart_json empty_storage
     = Inr (True, empty_storage\<lparr>entries := (entries empty_storage)(''cart'' \<mapsto> example_cart_text)\<rparr>)
   \<and> json_representable example_cart_json
   \<and> getCart ecma_JSON_parse
        (empty_storage\<lparr>entries := (entries empty_storage)(''cart'' \<mapsto> example_cart_text)\<rparr>)
       = Inr example_cart_json"
proof -
  have e: "ecma_JSON_stringify example_cart_json = Inr (Some example_cart_text)"
    by code_simp
  have n: "length example_cart_text \<le> 5000"
    by (simp add: example_cart_text_def)
  have s: "saveCart ecma_JSON_stringify example_cart_json empty_storage
     = Inr (True, empty_storage\<lparr>entries := (entries empty_storage)(''cart'' \<mapsto> example_cart_text)\<rparr>)"
    using n by (simp add: saveCart_def try_catch_def setItem_ls_def e empty_storage_def)
  have r: "json_representable example_cart_json"
    by (simp add: example_cart_json_def number_representable_def)
  from save_then_load_roundtrip[OF s r] s r show ?thesis by simp
qed

text \<open>
  Claim C8. \<open>getCart\<close> never throws, whatever the store holds and whatever \<open>JSON.parse\<close>
  does. When the store cannot be read, holds nothing or the empty string under the key, or
  holds a text that \<open>JSON.parse\<close> rejects, \<open>getCart\<close> returns the empty array: a corrupt
  payload gives what an absent one gives.
\<close>

theorem getCart_absent_or_corrupt_is_empty:
  "(\<exists>v. getCart JSON_parse ls = Inr v)
   \<and> ((\<not> accessible ls \<or> entries ls ''cart'' = None \<or> entries ls ''cart'' = Some []
        \<or> (\<exists>text e. entries ls ''cart'' = Some text \<and> JSON_parse text = Inl e))
       \<longrightarrow> getCart JSON_parse ls = Inr (JArr []))"
  by (auto simp: getCart_def try_catch_def getItem_ls_def split: sum.splits option.splits)

theorem getCart_absent_or_corrupt_is_empty_witness:
  "entries (empty_storage\<lparr>entries := (entries empty_storage)(''cart'' \<mapsto> ''[{id:7,pri'')\<rparr>) ''cart''
      = Some ''[{id:7,pri''
   \<and> example_parse ''[{id:7,pri'' = Inl SyntaxError
   \<and> getCart example_parse
        (empty_storage\<lparr>entries := (entries empty_storage)(''cart'' \<mapsto> ''[{id:7,pri'')\<rparr>)
       = Inr (JArr [])
   \<and> entries empty_storage ''cart'' = None
   \<and> getCart example_parse empty_storage = Inr (JArr [])
   \<and> \<not> accessible (empty_storage\<lparr>accessible := False\<rparr>)
   \<and> getCart example_parse (empty_storage\<lparr>accessible := False\<rparr>) = Inr (JArr [])"
proof -
  have c: "entries (empty_storage\<lparr>entries := (entries empty_storage)(''cart'' \<mapsto> ''[{id:7,pri'')\<rparr>)
             ''cart'' = Some ''[{id:7,pri''"
    by simp
  have p: "example_parse ''[{id:7,pri'' = Inl SyntaxError"
    by (simp add: example_parse_def example_cart_text_def)
  have a: "entries empty_storage ''cart'' = None"
    by (simp add: empty_storage_def)
  have d: "\<not> accessible (empty_storage\<lparr>accessible := False\<rparr>)"
    by simp
  from getCart_absent_or_corrupt_is_empty[of example_parse
         "empty_storage\<lparr>entries := (entries empty_storage)(''cart'' \<mapsto> ''[{id:7,pri'')\<rparr>"]
       getCart_absent_or_corrupt_is_empty[of example_parse empty_storage]
       getCart_absent_or_corrupt_is_empty[of example_parse "empty_storage\<lparr>accessible := False\<rparr>"]
       c p a d
  show ?thesis by blast
qed

section \<open>Sorting the catalog\<close>

lemma mset_insert_by: "mset (insert_by cmp x ys) = add_mset x (mset ys)"
  by (induction ys) simp_all

lemma set_insert_by: "set (insert_by cmp x ys) = insert x (set ys)"
  by (induction ys) auto

lemma mset_foldl_insert_by:
  "mset (foldl (\<lambda>sorted pivot. insert_by cmp pivot sorted) acc xs) = mset acc + mset xs"
  by (induction xs arbitrary: acc) (simp_all add: mset_insert_by)

lemma mset_array_sort: "mset (array_sort cmp xs) = mset xs"
  by (simp add: array_sort_def mset_foldl_insert_by)

text \<open>
  A comparator whose answers \<open>< 0\<close> form a total and transitive relation keeps the sorted
  prefix sorted at every insertion.
\<close>

lemma sorted_wrt_insert_by:
  assumes total: "\<And>a b. \<not> cmp a b < 0 \<Longrightarrow> cmp b a < 0"
      and trans: "\<And>a b c. cmp a b < 0 \<Longrightarrow> cmp b c < 0 \<Longrightarrow> cmp a c < 0"
      and srt: "sorted_wrt (\<lambda>a b. cmp a b < 0) ys"
  shows "sorted_wrt (\<lambda>a b. cmp a b < 0) (insert_by cmp x ys)"
  using srt
proof (induction ys)
  case Nil
  then show ?case by simp
next
  case (Cons y ys)
  show ?case
  proof (cases "cmp x y < 0")
    case True
    with Cons.prems show ?thesis by (auto intro: trans)
  next
    case False
    with Cons show ?thesis by (auto simp: set_insert_by dest: total)
  qed
qed

lemma sorted_wrt_foldl_insert_by:
  assumes total: "\<And>a b. \<not> cmp a b < 0 \<Longrightarrow> cmp b a < 0"
      and trans: "\<And>a b c. cmp a b < 0 \<Longrightarrow> cmp b c < 0 \<Longrightarrow> cmp a c < 0"
  shows "sorted_wrt (\<lambda>a b. cmp a b < 0) acc \<Longrightarrow>
         sorted_wrt (\<lambda>a b. cmp a b < 0)
           (foldl (\<lambda>sorted pivot. insert_by cmp pivot sorted) acc xs)"
proof (induction xs arbitrary: acc)
  case Nil
  then show ?case by simp
next
  case (Cons x xs)
  show ?case
    by (simp, rule Cons.IH, rule sorted_wrt_insert_by[OF total trans Cons.prems])
qed

lemma sorted_wrt_array_sort:
  assumes total: "\<And>a b. \<not> cmp a b < 0 \<Longrightarrow> cmp b a < 0"
      and trans: "\<And>a b c. cmp a b < 0 \<Longrightarrow> cmp b c < 0 \<Longrightarrow> cmp a c < 0"
  shows "sorted_wrt (\<lambda>a b. cmp a b < 0) (array_sort cmp xs)"
proof -
  have "sorted_wrt (\<lambda>a b. cmp a b < 0) []" by simp
  from sorted_wrt_foldl_insert_by[of cmp "[]" xs, OF total trans this]
  show ?thesis by (simp add: array_sort_def)
qed

text \<open>The values read under one property name are all numbers, all strings or all undefined.\<close>

lemma sort_value_cases:
  "(\<forall>p. \<exists>r. sort_value k p = Num r) \<or> (\<forall>p. \<exists>s. sort_value k p = Str s)
   \<or> (\<forall>p. sort_value k p = Undefined)"
  by (simp add: sort_value_def get_prop_def)

lemma comparefn_sort_value:
  "comparefn k so a b =
     (if so = ''asc''
      then (if js_gt (sort_value k a) (sort_value k b) then 1 else - 1)
      else (if js_lt (sort_value k a) (sort_value k b) then 1 else - 1))"
  by (simp add: comparefn_def sort_value_def get_prop_def is_string_def Let_def)

lemma comparefn_neg_asc:
  "comparefn k ''asc'' a b < 0 \<longleftrightarrow> \<not> js_gt (sort_value k a) (sort_value k b)"
  by (simp add: comparefn_sort_value)

lemma comparefn_neg_desc:
  "so \<noteq> ''asc'' \<Longrightarrow> comparefn k so a b < 0 \<longleftrightarrow> \<not> js_lt (sort_value k a) (sort_value k b)"
  by (simp add: comparefn_sort_value)

lemma sort_value_kind:
  obtains (num) f where "\<And>p. sort_value k p = Num (f p)"
        | (str) g where "\<And>p. sort_value k p = Str (g p)"
        | (und) "\<And>p. sort_value k p = Undefined"
proof -
  from sort_value_cases[of k]
  consider "\<forall>p. \<exists>r. sort_value k p = Num r" | "\<forall>p. \<exists>s. sort_value k p = Str s"
    | "\<forall>p. sort_value k p = Undefined"
    by blast
  then show thesis
  proof cases
    case 1
    then obtain f where "\<forall>p. sort_value k p = Num (f p)" by (rule choice[THEN exE])
    then show thesis using num by blast
  next
    case 2
    then obtain g where "\<forall>p. sort_value k p = Str (g p)" by (rule choice[THEN exE])
    then show thesis using str by blast
  next
    case 3
    then show thesis using und by blast
  qed
qed

lemma not_gt_total:
  "js_gt (sort_value k a) (sort_value k b) \<Longrightarrow> \<not> js_gt (sort_value k b) (sort_value k a)"
  by (cases k rule: sort_value_kind) simp_all

lemma not_gt_trans:
  "\<not> js_gt (sort_value k a) (sort_value k b) \<Longrightarrow> \<not> js_gt (sort_value k b) (sort_value k c)
   \<Longrightarrow> \<not> js_gt (sort_value k a) (sort_value k c)"
  by (cases k rule: sort_value_kind) simp_all

lemma not_lt_total:
  "js_lt (sort_value k a) (sort_value k b) \<Longrightarrow> \<not> js_lt (sort_value k b) (sort_value k a)"
  by (cases k rule: sort_value_kind) simp_all

lemma not_lt_trans:
  "\<not> js_lt (sort_value k a) (sort_value k b) \<Longrightarrow> \<not> js_lt (sort_value k b) (sort_value k c)
   \<Longrightarrow> \<not> js_lt (sort_value k a) (sort_value k c)"
  by (cases k rule: sort_value_kind) simp_all

lemma sorted_asc:
  "sorted_wrt (\<lambda>a b. \<not> js_gt (sort_value k a) (sort_value k b))
     (array_sort (comparefn k ''asc'') xs)"
proof -
  have "sorted_wrt (\<lambda>a b. comparefn k ''asc'' a b < 0) (array_sort (comparefn k ''asc'') xs)"
  proof (rule sorted_wrt_array_sort)
    fix a b assume "\<not> comparefn k ''asc'' a b < 0"
    then show "comparefn k ''asc'' b a < 0"
      unfolding comparefn_neg_asc using not_gt_total by blast
  next
    fix a b c assume "comparefn k ''asc'' a b < 0" "comparefn k ''asc'' b c < 0"
    then show "comparefn k ''asc'' a c < 0"
      unfolding comparefn_neg_asc by (rule not_gt_trans)
  qed
  then show ?thesis unfolding comparefn_neg_asc .
qed

lemma sorted_desc:
  assumes so: "so \<noteq> ''asc''"
  shows "sorted_wrt (\<lambda>a b. \<not> js_lt (sort_value k a) (sort_value k b))
           (array_sort (comparefn k so) xs)"
proof -
  have "sorted_wrt (\<lambda>a b. comparefn k so a b < 0) (array_sort (comparefn k so) xs)"
  proof (rule sorted_wrt_array_sort)
    fix a b assume "\<not> comparefn k so a b < 0"
    then show "comparefn k so b a < 0"
      unfolding comparefn_neg_desc[OF so] using not_lt_total by blast
  next
    fix a b c assume "comparefn k so a b < 0" "comparefn k so b c < 0"
    then show "comparefn k so a c < 0"
      unfolding comparefn_neg_desc[OF so] by (rule not_lt_trans)
  qed
  then show ?thesis unfolding comparefn_neg_desc[OF so] .
qed

lemma comparefn_ignores_id:
  "k \<noteq> ''id'' \<Longrightarrow> comparefn k so (a\<lparr>prod_id := i\<rparr>) (b\<lparr>prod_id := j\<rparr>) = comparefn k so a b"
  by (simp add: comparefn_def get_prop_def)

text \<open>
  Claim C9 as stated fails: three products of the same name with ids 2, 1, 3 in the base
  set, sorted by name ascending, come out with ids 3, 1, 2, which is neither ascending id
  nor the order of the base set.
\<close>

theorem sort_ties_not_by_id_counterexample:
  "map (sort_value ''name'')
     (getFilteredProducts (\<lambda>s. None) (\<lambda>s. None) (example_catalog [mug 2, mug 1, mug 3]))
     = [Str ''mug'', Str ''mug'', Str ''mug'']
   \<and> map prod_id
     (getFilteredProducts (\<lambda>s. None) (\<lambda>s. None) (example_catalog [mug 2, mug 1, mug 3]))
     = [3, 1, 2]
   \<and> \<not> sorted [3, 1, 2 :: int]"
  by code_simp

text \<open>
  Claim C9, amended. For every base product set and every query, the sort step returns
  the filtered records, each as often as it was there, ordered by the requested key (strings
  in lower case) in the requested direction: ascending for \<open>asc\<close>, descending for any other
  setting. The comparator reads nothing but that key, so unless the key is \<open>id\<close> itself the
  ids have no influence on the order, also among records of equal key.
\<close>

theorem getFilteredProducts_sorted_by_key:
  "mset (getFilteredProducts parseInt parseFloat st) = mset (apply_filters parseInt parseFloat st)
   \<and> (sortOrder (filters st) = ''asc'' \<longrightarrow>
        sorted_wrt (\<lambda>a b. \<not> js_gt (sort_value (sortBy (filters st)) a)
                                   (sort_value (sortBy (filters st)) b))
          (getFilteredProducts parseInt parseFloat st))
   \<and> (sortOrder (filters st) \<noteq> ''asc'' \<longrightarrow>
        sorted_wrt (\<lambda>a b. \<not> js_lt (sort_value (sortBy (filters st)) a)
                                   (sort_value (sortBy (filters st)) b))
          (getFilteredProducts parseInt parseFloat st))
   \<and> (sortBy (filters st) \<noteq> ''id'' \<longrightarrow>
        (\<forall>a b i j. comparefn (sortBy (filters st)) (sortOrder (filters st))
                     (a\<lparr>prod_id := i\<rparr>) (b\<lparr>prod_id := j\<rparr>)
                   = comparefn (sortBy (filters st)) (sortOrder (filters st)) a b))"
  by (auto simp: getFilteredProducts_def mset_array_sort sorted_asc sorted_desc
        comparefn_ignores_id)

theorem getFilteredProducts_sorted_by_key_witness:
  "sortOrder (filters (example_catalog
      [mug 2, example_product, (mug 5)\<lparr>name := ''apple''\<rparr>, (mug 4)\<lparr>name := ''Zed''\<rparr>])) = ''asc''
   \<and> sortBy (filters (example_catalog
      [mug 2, example_product, (mug 5)\<lparr>name := ''apple''\<rparr>, (mug 4)\<lparr>name := ''Zed''\<rparr>])) \<noteq> ''id''
   \<and> map name (getFilteredProducts (\<lambda>s. None) (\<lambda>s. None) (example_catalog
      [mug 2, example_product, (mug 5)\<lparr>name := ''apple''\<rparr>, (mug 4)\<lparr>name := ''Zed''\<rparr>]))
     = [''apple'', ''Mug'', ''Shirt'', ''Zed'']
   \<and> sorted_wrt (\<lambda>a b. \<not> js_gt (sort_value ''name'' a) (sort_value ''name'' b))
       (getFilteredProducts (\<lambda>s. None) (\<lambda>s. None) (example_catalog
          [mug 2, example_product, (mug 5)\<lparr>name := ''apple''\<rparr>, (mug 4)\<lparr>name := ''Zed''\<rparr>]))
   \<and> sortOrder (filters (example_catalog_desc
      [mug 2, example_product, (mug 5)\<lparr>name := ''apple''\<rparr>, (mug 4)\<lparr>name := ''Zed''\<rparr>])) \<noteq> ''asc''
   \<and> map price (getFilteredProducts (\<lambda>s. None) (\<lambda>s. None) (example_catalog_desc
      [mug 2, example_product, (mug 5)\<lparr>price := 3\<rparr>, (mug 4)\<lparr>price := 25\<rparr>]))
     = [25, 10, 8, 3]
   \<and> sorted_wrt (\<lambda>a b. \<not> js_lt (sort_value ''price'' a) (sort_value ''price'' b))
       (getFilteredProducts (\<lambda>s. None) (\<lambda>s. None) (example_catalog_desc
          [mug 2, example_product, (mug 5)\<lparr>price := 3\<rparr>, (mug 4)\<lparr>price := 25\<rparr>]))"
proof -
  let ?st = "example_catalog
      [mug 2, example_product, (mug 5)\<lparr>name := ''apple''\<rparr>, (mug 4)\<lparr>name := ''Zed''\<rparr>]"
  let ?ds = "example_catalog_desc
      [mug 2, example_product, (mug 5)\<lparr>price := 3\<rparr>, (mug 4)\<lparr>price := 25\<rparr>]"
  have a: "sortOrder (filters ?st) = ''asc''"
    by (simp add: example_catalog_def)
  have k: "sortBy (filters ?st) = ''name''"
    by (simp add: example_catalog_def)
  have i: "sortBy (filters ?st) \<noteq> ''id''"
    by (simp add: example_catalog_def)
  have n: "map name (getFilteredProducts (\<lambda>s. None) (\<lambda>s. None) ?st)
     = [''apple'', ''Mug'', ''Shirt'', ''Zed'']"
    by code_simp
  from getFilteredProducts_sorted_by_key[of "\<lambda>s. None" "\<lambda>s. None" ?st] a
  have "sorted_wrt (\<lambda>a b. \<not> js_gt (sort_value (sortBy (filters ?st)) a)
                                   (sort_value (sortBy (filters ?st)) b))
          (getFilteredProducts (\<lambda>s. None) (\<lambda>s. None) ?st)"
    by blast
  then have s: "sorted_wrt (\<lambda>a b. \<not> js_gt (sort_value ''name'' a) (sort_value ''name'' b))
          (getFilteredProducts (\<lambda>s. None) (\<lambda>s. None) ?st)"
    by (simp only: k)
  have d: "sortOrder (filters (example_catalog_desc
      [mug 2, example_product, (mug 5)\<lparr>name := ''apple''\<rparr>, (mug 4)\<lparr>name := ''Zed''\<rparr>])) \<noteq> ''asc''"
    by (simp add: example_catalog_desc_def)
  have d': "sortOrder (filters ?ds) \<noteq> ''asc''"
    by (simp add: example_catalog_desc_def)
  have k': "sortBy (filters ?ds) = ''price''"
    by (simp add: example_catalog_desc_def)
  have n': "map price (getFilteredProducts (\<lambda>s. None) (\<lambda>s. None) ?ds) = [25, 10, 8, 3]"
    by code_simp
  from getFilteredProducts_sorted_by_key[of "\<lambda>s. None" "\<lambda>s. None" ?ds] d'
  have "sorted_wrt (\<lambda>a b. \<not> js_lt (sort_value (sortBy (filters ?ds)) a)
                                   (sort_value (sortBy (filters ?ds)) b))
          (getFilteredProducts (\<lambda>s. None) (\<lambda>s. None) ?ds)"
    by blast
  then have s': "sorted_wrt (\<lambda>a b. \<not> js_lt (sort_value ''price'' a) (sort_value ''price'' b))
          (getFilteredProducts (\<lambda>s. None) (\<lambda>s. None) ?ds)"
    by (simp only: k')
  from a i n s d n' s' show ?thesis by blast
qed

end
